theory Spec2Isabelle
  imports Complex_Main "HOL-Library.Word" "HOL-Library.Sublist"
begin

section \<open>JavaScript values of the satellite page\<close>

text \<open>
  The page component of \<^verbatim>\<open>src/app/page.tsx\<close> receives JSON text over a WebSocket and
  keeps the latest position of every satellite in a \<^verbatim>\<open>Map\<close>. The TypeScript interfaces
  are erased at run time, so the handlers work on whatever \<^verbatim>\<open>JSON.parse\<close> returns; the
  model keeps the run-time values.

  A string is a list of UTF-16 code units. \<open>str\<close> writes an ASCII literal.
\<close>

type_synonym jschar = "16 word"
type_synonym jsstring = "jschar list"

definition str :: "string \<Rightarrow> jsstring" where
  "str s = map of_char s"

text \<open>
  A number is kept as its exact value: a finite double as the rational it denotes, the
  two infinities and NaN apart. The two zeros are one value, which is how \<^verbatim>\<open>Map\<close> keys
  compare them (SameValueZero), and NaN equals itself there as well.
\<close>

datatype jsnum = Fin rat | PInf | NInf | NaN

datatype jsval =
    Undefined
  | Null
  | Bool bool
  | Num jsnum
  | Str jsstring
  | Arr "jsval list"
  | Obj "(jsstring \<times> jsval) list"

datatype exn = SyntaxError | TypeError | InvalidChild

text \<open>
  The exceptions that occur: \<^verbatim>\<open>JSON.parse\<close> throws a SyntaxError, the operator \<^verbatim>\<open>in\<close>
  and a call of a missing method throw a TypeError, and React throws an error when an
  object is given to it as a child (\<open>InvalidChild\<close>).
\<close>

text \<open>
  An object is written as the list of its own properties; the object it denotes is
  \<open>map_of\<close> of the list. Reading a property that is absent gives \<^verbatim>\<open>undefined\<close>. The
  handlers read properties of objects only.
\<close>

fun get_prop :: "jsstring \<Rightarrow> jsval \<Rightarrow> jsval" where
  "get_prop k (Obj kvs) = (case map_of kvs k of Some v \<Rightarrow> v | None \<Rightarrow> Undefined)"
| "get_prop k v = Undefined"

text \<open>
  \<^verbatim>\<open>'norad' in msg\<close> and \<^verbatim>\<open>'type' in msg\<close>. On a primitive (a number, a string, a
  boolean, null) the operator \<^verbatim>\<open>in\<close> throws a TypeError. No prototype defines a
  property of either name, so on an object the test is for an own property, and on an
  array (whose own properties are its indices and \<^verbatim>\<open>length\<close>) it is false.
\<close>

fun has_prop :: "jsstring \<Rightarrow> jsval \<Rightarrow> exn + bool" where
  "has_prop k (Obj kvs) = Inr (map_of kvs k \<noteq> None)"
| "has_prop k (Arr xs) = Inr False"
| "has_prop k v = Inl TypeError"

text \<open>\<^verbatim>\<open>function isSatellitePosition(msg) { return 'norad' in msg }\<close>\<close>

definition isSatellitePosition :: "jsval \<Rightarrow> exn + bool" where
  "isSatellitePosition msg = has_prop (str ''norad'') msg"

text \<open>
  \<^verbatim>\<open>function isConnectionMessage(msg) { return 'type' in msg && msg.type === 'connection' }\<close>
\<close>

definition isConnectionMessage :: "jsval \<Rightarrow> exn + bool" where
  "isConnectionMessage msg =
     (case has_prop (str ''type'') msg of
        Inl e \<Rightarrow> Inl e
      | Inr b \<Rightarrow> Inr (b \<and> get_prop (str ''type'') msg = Str (str ''connection'')))"

section \<open>String operations of the altitude normalization\<close>

text \<open>
  \<^verbatim>\<open>s.replace('km', '')\<close> with a string pattern replaces the first occurrence of the
  pattern, wherever it is, and nothing else.
\<close>

fun js_replace :: "jsstring \<Rightarrow> jsstring \<Rightarrow> jsstring \<Rightarrow> jsstring" where
  "js_replace pat rep [] = (if pat = [] then rep else [])"
| "js_replace pat rep (c # cs) =
     (if prefix pat (c # cs) then rep @ drop (length pat) (c # cs)
      else c # js_replace pat rep cs)"

text \<open>
  The code units that \<^verbatim>\<open>trim\<close> and \<^verbatim>\<open>parseFloat\<close> skip: ECMAScript's WhiteSpace and
  LineTerminator.
\<close>

definition is_ws :: "jschar \<Rightarrow> bool" where
  "is_ws c \<longleftrightarrow>
     c = 0x9 \<or> c = 0xA \<or> c = 0xB \<or> c = 0xC \<or> c = 0xD \<or> c = 0x20 \<or> c = 0xA0 \<or>
     c = 0x1680 \<or> (0x2000 \<le> c \<and> c \<le> 0x200A) \<or> c = 0x2028 \<or> c = 0x2029 \<or>
     c = 0x202F \<or> c = 0x205F \<or> c = 0x3000 \<or> c = 0xFEFF"

definition js_trim :: "jsstring \<Rightarrow> jsstring" where
  "js_trim s = rev (dropWhile is_ws (rev (dropWhile is_ws s)))"

definition is_digit :: "jschar \<Rightarrow> bool" where
  "is_digit c \<longleftrightarrow> 0x30 \<le> c \<and> c \<le> 0x39"

definition digits_val :: "jsstring \<Rightarrow> nat" where
  "digits_val ds = foldl (\<lambda>a c. 10 * a + (unat c - 48)) 0 ds"

text \<open>
  The exponent part that may follow the mantissa: \<^verbatim>\<open>e\<close> or \<^verbatim>\<open>E\<close>, an optional sign
  and at least one digit. Anything else is not part of the literal.
\<close>

definition exponent_part :: "jsstring \<Rightarrow> int" where
  "exponent_part r =
     (case r of
        [] \<Rightarrow> 0
      | c # cs \<Rightarrow>
          if c = 0x65 \<or> c = 0x45 then
            (case cs of
               [] \<Rightarrow> 0
             | d # ds \<Rightarrow>
                 if d = 0x2B then int (digits_val (takeWhile is_digit ds))
                 else if d = 0x2D then - int (digits_val (takeWhile is_digit ds))
                 else int (digits_val (takeWhile is_digit cs)))
          else 0)"

text \<open>
  \<^verbatim>\<open>parseFloat\<close>, from the ECMAScript definition: leading white space is skipped, the
  longest prefix that is a decimal literal (an optional sign, then \<^verbatim>\<open>Infinity\<close> or
  digits with an optional fraction and exponent) is read, and the rest is ignored; with
  no such prefix the result is NaN. The value is the exact decimal: the rounding of a
  literal to the nearest double, with its overflow to an infinity and its underflow to
  zero, is not modelled, so the value is that of the code for the literals that are
  doubles.
\<close>

definition parseFloat :: "jsstring \<Rightarrow> jsnum" where
  "parseFloat input =
     (let s = dropWhile is_ws input;
          neg = (case s of [] \<Rightarrow> False | c # cs \<Rightarrow> c = 0x2D);
          r = (case s of [] \<Rightarrow> s | c # cs \<Rightarrow> if c = 0x2B \<or> c = 0x2D then cs else s)
      in if prefix (str ''Infinity'') r then (if neg then NInf else PInf)
         else
           let ip = takeWhile is_digit r;
               r1 = dropWhile is_digit r;
               dot = (case r1 of [] \<Rightarrow> False | c # cs \<Rightarrow> c = 0x2E);
               fp = (if dot then takeWhile is_digit (tl r1) else []);
               r2 = (if dot then dropWhile is_digit (tl r1) else r1)
           in if ip = [] \<and> fp = [] then NaN
              else Fin ((if neg then - 1 else 1) * of_nat (digits_val (ip @ fp))
                          * 10 powi (exponent_part r2 - int (length fp))))"

text \<open>
  Lines 90 to 95 of the message handler:
  \<^verbatim>\<open>
  if (typeof data.alt === 'string') {
    altValue = parseFloat(data.alt.replace('km', '').trim())
  } else {
    altValue = data.alt
  }
  \<close>
  The second branch takes the value as it is, whatever it is.
\<close>

definition altValue :: "jsval \<Rightarrow> jsval" where
  "altValue a =
     (case a of
        Str s \<Rightarrow> Num (parseFloat (js_trim (js_replace (str ''km'') [] s)))
      | _ \<Rightarrow> a)"

section \<open>The component's state\<close>

text \<open>
  A record of the store, \<^verbatim>\<open>interface SatelliteData\<close>. The fields hold what the message
  held: nothing checks their types at run time. \<open>timestamp\<close> is the reading of the clock.
\<close>

record SatelliteData =
  name :: jsval
  norad :: jsval
  lat :: jsval
  lon :: jsval
  alt :: jsval
  timestamp :: nat

text \<open>
  The key of a \<^verbatim>\<open>Map\<close> entry. Primitive keys are compared by value; an object or an
  array is compared by identity, and every decoded message is a new object, so such a key
  is the number of the allocation.
\<close>

datatype mapkey = KPrim jsval | KRef nat

fun mapkey_of :: "nat \<Rightarrow> jsval \<Rightarrow> mapkey" where
  "mapkey_of fresh (Arr xs) = KRef fresh"
| "mapkey_of fresh (Obj kvs) = KRef fresh"
| "mapkey_of fresh v = KPrim v"

text \<open>
  \<^verbatim>\<open>Map.prototype.set\<close>: the entry of an existing key is replaced where it stands, a new
  key is added at the end (a \<^verbatim>\<open>Map\<close> iterates in insertion order).
\<close>

fun map_set :: "'k \<Rightarrow> 'v \<Rightarrow> ('k \<times> 'v) list \<Rightarrow> ('k \<times> 'v) list" where
  "map_set k v [] = [(k, v)]"
| "map_set k v (e # es) = (if fst e = k then (k, v) # es else e # map_set k v es)"

datatype readyState = CONNECTING | OPEN | CLOSING | CLOSED

text \<open>The two callbacks handed to \<^verbatim>\<open>setTimeout\<close>, at lines 135 and 147.\<close>

datatype callback = ReconnectAfterClose | RetryAfterFailure

record timer =
  handle :: nat
  delay :: nat
  callback :: callback

text \<open>What the handlers write to the console, one constructor for each call.\<close>

datatype console_line =
    ConnectedToFeed
  | ReceivedMessage nat
  | ConnectionStatusLine jsval
  | UnknownMessageFormat jsval
  | ErrorParsingMessage exn
  | RawMessageWas jsstring
  | WebSocketError
  | DisconnectedFromFeed
  | AttemptingToReconnect
  | FailedToCreateWebSocket

text \<open>
  The state has three parts. The first five fields are the React state of \<^verbatim>\<open>Home\<close>
  (the \<^verbatim>\<open>useState\<close> hooks); \<open>ws\<close>, \<open>reconnectTimeout\<close> and \<open>isMounted\<close> are the
  variables of the effect's closure, shared by every handler; the rest is the environment
  the handlers act on: the sockets constructed so far with their \<^verbatim>\<open>readyState\<close> (a
  socket is named by its index), the pending timeouts, the next timeout handle, the number
  of objects allocated by \<^verbatim>\<open>JSON.parse\<close>, and the console.

  The state setters are applied in the order the handlers call them: the React state of
  the model is the state of the next render. The counter is a natural number (a
  JavaScript number stops counting at \<open>2^53\<close>).

  The console is kept in two parts. \<open>console\<close> holds the lines that the handlers
  write themselves, in the order they write them. The line of lines 71 to 73 is written
  inside the updater given to \<^verbatim>\<open>setMessageCount\<close>, which React runs when it processes
  the update and not where the handler calls the setter; its lines are kept apart, in
  \<open>updater_console\<close>, and nothing is said about their place among the others.
\<close>

record state =
  satellites :: "(mapkey \<times> SatelliteData) list"
  connected :: bool
  connectionStatus :: jsval
  messageCount :: nat
  lastMessageTime :: "nat option"
  ws :: "nat option"
  reconnectTimeout :: "nat option"
  isMounted :: bool
  sockets :: "readyState list"
  timers :: "timer list"
  nextTimer :: nat
  allocated :: nat
  console :: "console_line list"
  updater_console :: "console_line list"

definition console_log :: "console_line \<Rightarrow> state \<Rightarrow> state" where
  "console_log l s = s\<lparr>console := console s @ [l]\<rparr>"

text \<open>
  \<^verbatim>\<open>setTimeout(cb, ms)\<close> returns a new handle, which is truthy (a positive number in a
  browser, an object in Node), and \<^verbatim>\<open>clearTimeout(h)\<close> removes the timeout of that
  handle if it is still pending.
\<close>

definition setTimeout :: "callback \<Rightarrow> nat \<Rightarrow> state \<Rightarrow> nat \<times> state" where
  "setTimeout cb ms s =
     (nextTimer s,
      s\<lparr>timers := timers s @ [\<lparr>handle = nextTimer s, delay = ms, callback = cb\<rparr>],
        nextTimer := Suc (nextTimer s)\<rparr>)"

definition clearTimeout :: "nat \<Rightarrow> state \<Rightarrow> state" where
  "clearTimeout h s = s\<lparr>timers := filter (\<lambda>t. handle t \<noteq> h) (timers s)\<rparr>"

section \<open>The handlers\<close>

text \<open>
  \<^verbatim>\<open>connect\<close>, lines 50 to 154. The flag says whether \<^verbatim>\<open>new WebSocket(url)\<close> returns
  (the socket starts in state CONNECTING and \<open>ws\<close> is assigned) or throws (the
  \<^verbatim>\<open>catch\<close> of lines 143 to 153 runs and \<open>ws\<close> keeps its value).
\<close>

definition connect :: "bool \<Rightarrow> state \<Rightarrow> state" where
  "connect constructed s =
     (if constructed then
        s\<lparr>ws := Some (length (sockets s)), sockets := sockets s @ [CONNECTING]\<rparr>
      else
        let s1 = console_log FailedToCreateWebSocket s in
        if isMounted s1 then
          let s2 = s1\<lparr>connectionStatus := Str (str ''Failed to connect - retrying...'')\<rparr>;
              (h, s3) = setTimeout RetryAfterFailure 3000 s2
          in s3\<lparr>reconnectTimeout := Some h\<rparr>
        else s1)"

text \<open>\<^verbatim>\<open>ws.onopen\<close>, lines 54 to 63.\<close>

definition onopen :: "state \<Rightarrow> state" where
  "onopen s =
     (if \<not> isMounted s then s
      else
        let s1 = console_log ConnectedToFeed s;
            s2 = s1\<lparr>connected := True, connectionStatus := Str (str ''Connected'')\<rparr>
        in case reconnectTimeout s2 of
             None \<Rightarrow> s2
           | Some h \<Rightarrow> (clearTimeout h s2)\<lparr>reconnectTimeout := None\<rparr>)"

text \<open>
  A message event: the text received, what \<^verbatim>\<open>JSON.parse\<close> makes of it (\<open>None\<close> when
  it throws a SyntaxError), and the two readings of the clock (\<^verbatim>\<open>new Date()\<close> at lines
  76 and 103).
\<close>

record message_event =
  data :: jsstring
  parsed :: "jsval option"
  date1 :: nat
  date2 :: nat

text \<open>
  The record built at lines 89 to 104 from a decoded message and the reading of the clock.
\<close>

definition satelliteData :: "jsval \<Rightarrow> nat \<Rightarrow> SatelliteData" where
  "satelliteData d t =
     \<lparr>name = get_prop (str ''name'') d,
      norad = get_prop (str ''norad'') d,
      lat = get_prop (str ''lat'') d,
      lon = get_prop (str ''lon'') d,
      alt = altValue (get_prop (str ''alt'') d),
      timestamp = t\<rparr>"

text \<open>
  The body of the \<^verbatim>\<open>try\<close> from line 78 on, for a decoded message; \<open>Inl\<close> is an
  exception thrown inside it. The connection test comes first and returns; the position
  test follows.
\<close>

definition classify :: "message_event \<Rightarrow> jsval \<Rightarrow> state \<Rightarrow> exn + state" where
  "classify ev d s =
     (case isConnectionMessage d of
        Inl e \<Rightarrow> Inl e
      | Inr True \<Rightarrow>
          Inr ((console_log (ConnectionStatusLine (get_prop (str ''status'') d)) s)
                 \<lparr>connectionStatus := get_prop (str ''message'') d\<rparr>)
      | Inr False \<Rightarrow>
          (case isSatellitePosition d of
             Inl e \<Rightarrow> Inl e
           | Inr True \<Rightarrow>
               Inr (s\<lparr>satellites :=
                        map_set (mapkey_of (allocated s) (get_prop (str ''norad'') d))
                          (satelliteData d (date2 ev)) (satellites s)\<rparr>)
           | Inr False \<Rightarrow> Inr (console_log (UnknownMessageFormat d) s)))"

text \<open>
  Lines 68 to 76: the counter is incremented and the time of the last message is set.
  The updater of the counter logs the first three counts; its line goes to
  \<open>updater_console\<close>.
\<close>

definition count_message :: "message_event \<Rightarrow> state \<Rightarrow> state" where
  "count_message ev s =
     (let newCount = messageCount s + 1;
          s1 = (if newCount \<le> 3
                then s\<lparr>updater_console := updater_console s @ [ReceivedMessage newCount]\<rparr>
                else s)
      in s1\<lparr>messageCount := newCount, lastMessageTime := Some (date1 ev)\<rparr>)"

text \<open>The \<^verbatim>\<open>catch\<close> of lines 114 to 117 logs the error and the text received.\<close>

definition caught :: "message_event \<Rightarrow> exn \<Rightarrow> state \<Rightarrow> state" where
  "caught ev e s = console_log (RawMessageWas (data ev)) (console_log (ErrorParsingMessage e) s)"

text \<open>
  \<^verbatim>\<open>ws.onmessage\<close>, lines 65 to 118. The counter and the time are set before
  \<^verbatim>\<open>JSON.parse\<close> runs, so they stay set when it throws.
\<close>

definition onmessage :: "message_event \<Rightarrow> state \<Rightarrow> state" where
  "onmessage ev s =
     (if \<not> isMounted s then s
      else
        let s2 = count_message ev s
        in case parsed ev of
             None \<Rightarrow> caught ev SyntaxError s2
           | Some d \<Rightarrow>
               (case classify ev d (s2\<lparr>allocated := Suc (allocated s2)\<rparr>) of
                  Inl e \<Rightarrow> caught ev e s2
                | Inr s3 \<Rightarrow> s3))"

text \<open>\<^verbatim>\<open>ws.onerror\<close>, lines 120 to 125.\<close>

definition onerror :: "state \<Rightarrow> state" where
  "onerror s =
     (if \<not> isMounted s then s
      else (console_log WebSocketError s)
             \<lparr>connected := False,
              connectionStatus := Str (str ''Connection error - retrying...'')\<rparr>)"

text \<open>\<^verbatim>\<open>ws.onclose\<close>, lines 127 to 142.\<close>

definition onclose :: "state \<Rightarrow> state" where
  "onclose s =
     (if \<not> isMounted s then s
      else
        let s1 = (console_log DisconnectedFromFeed s)
                   \<lparr>connected := False,
                    connectionStatus := Str (str ''Disconnected - reconnecting...'')\<rparr>
        in if isMounted s1 \<and> reconnectTimeout s1 = None then
             let (h, s2) = setTimeout ReconnectAfterClose 3000 s1
             in s2\<lparr>reconnectTimeout := Some h\<rparr>
           else s1)"

text \<open>
  The two timeout callbacks. Neither resets \<open>reconnectTimeout\<close>: after the timeout has
  run, the variable still holds its handle.
\<close>

fun run_callback :: "callback \<Rightarrow> bool \<Rightarrow> state \<Rightarrow> state" where
  "run_callback ReconnectAfterClose constructed s =
     (if isMounted s then connect constructed (console_log AttemptingToReconnect s) else s)"
| "run_callback RetryAfterFailure constructed s =
     (if isMounted s then connect constructed s else s)"

text \<open>
  \<^verbatim>\<open>WebSocket.prototype.close\<close>: a socket that is connecting or open starts closing;
  one that is closing or closed is left alone.
\<close>

definition ws_close :: "nat \<Rightarrow> state \<Rightarrow> state" where
  "ws_close k s =
     (if k < length (sockets s) \<and> (sockets s ! k = CONNECTING \<or> sockets s ! k = OPEN)
      then s\<lparr>sockets := (sockets s)[k := CLOSING]\<rparr> else s)"

text \<open>The cleanup of the effect, lines 158 to 166.\<close>

definition cleanup :: "state \<Rightarrow> state" where
  "cleanup s =
     (let s1 = s\<lparr>isMounted := False\<rparr>;
          s2 = (case reconnectTimeout s1 of None \<Rightarrow> s1 | Some h \<Rightarrow> clearTimeout h s1)
      in case ws s2 of None \<Rightarrow> s2 | Some k \<Rightarrow> ws_close k s2)"

text \<open>
  The state after the first render and the run of the effect (lines 39 to 48 and 156).
\<close>

definition initial :: state where
  "initial =
     \<lparr>satellites = [], connected = False, connectionStatus = Str (str ''Disconnected''),
      messageCount = 0, lastMessageTime = None,
      ws = None, reconnectTimeout = None, isMounted = True,
      sockets = [], timers = [], nextTimer = 1, allocated = 0, console = [],
      updater_console = []\<rparr>"

definition mount :: "bool \<Rightarrow> state" where
  "mount constructed = connect constructed initial"

section \<open>Events\<close>

text \<open>
  What the browser delivers: the four events of a socket, the expiry of a timeout (with
  the outcome of the constructor that its callback will call), and the unmounting of the
  component. The handlers of every socket are closures over the same variables, so the
  socket of an event matters to the environment only: \<open>Open\<close> and \<open>Close\<close> change its
  \<^verbatim>\<open>readyState\<close>. An expired timeout is no longer pending when its callback runs.
\<close>

datatype event =
    Open nat
  | Message nat message_event
  | Error nat
  | Close nat
  | Timeout nat bool
  | Unmount

fun find_timer :: "nat \<Rightarrow> timer list \<Rightarrow> timer option" where
  "find_timer h [] = None"
| "find_timer h (t # ts) = (if handle t = h then Some t else find_timer h ts)"

fun deliver :: "event \<Rightarrow> state \<Rightarrow> state" where
  "deliver (Open k) s = onopen (s\<lparr>sockets := (sockets s)[k := OPEN]\<rparr>)"
| "deliver (Message k ev) s = onmessage ev s"
| "deliver (Error k) s = onerror s"
| "deliver (Close k) s = onclose (s\<lparr>sockets := (sockets s)[k := CLOSED]\<rparr>)"
| "deliver (Timeout h constructed) s =
     (case find_timer h (timers s) of
        None \<Rightarrow> s
      | Some t \<Rightarrow> run_callback (callback t) constructed (clearTimeout h s))"
| "deliver Unmount s = cleanup s"

text \<open>
  When the browser can deliver an event: a socket opens once, from CONNECTING; messages
  arrive on an open socket (or one that is closing); a socket reports errors and closes
  until it is closed; only a pending timeout expires; the cleanup runs once.
\<close>

fun enabled :: "state \<Rightarrow> event \<Rightarrow> bool" where
  "enabled s (Open k) \<longleftrightarrow> k < length (sockets s) \<and> sockets s ! k = CONNECTING"
| "enabled s (Message k ev) \<longleftrightarrow>
     k < length (sockets s) \<and> (sockets s ! k = OPEN \<or> sockets s ! k = CLOSING)"
| "enabled s (Error k) \<longleftrightarrow> k < length (sockets s) \<and> sockets s ! k \<noteq> CLOSED"
| "enabled s (Close k) \<longleftrightarrow> k < length (sockets s) \<and> sockets s ! k \<noteq> CLOSED"
| "enabled s (Timeout h constructed) \<longleftrightarrow> find_timer h (timers s) \<noteq> None"
| "enabled s Unmount \<longleftrightarrow> isMounted s"

fun run :: "event list \<Rightarrow> state \<Rightarrow> state" where
  "run [] s = s"
| "run (e # es) s = run es (deliver e s)"

fun feasible :: "event list \<Rightarrow> state \<Rightarrow> bool" where
  "feasible [] s \<longleftrightarrow> True"
| "feasible (e # es) s \<longleftrightarrow> enabled s e \<and> feasible es (deliver e s)"

inductive reachable :: "state \<Rightarrow> bool" where
  start: "reachable (mount constructed)"
| step: "reachable s \<Longrightarrow> enabled s e \<Longrightarrow> reachable (deliver e s)"

text \<open>\<^verbatim>\<open>typeof v === 'number'\<close> and \<^verbatim>\<open>typeof v === 'string'\<close>.\<close>

definition is_num :: "jsval \<Rightarrow> bool" where
  "is_num v = (case v of Num x \<Rightarrow> True | _ \<Rightarrow> False)"

definition is_str :: "jsval \<Rightarrow> bool" where
  "is_str v = (case v of Str x \<Rightarrow> True | _ \<Rightarrow> False)"

section \<open>The view\<close>

text \<open>
  The render of \<^verbatim>\<open>Home\<close>, lines 169 to 227. The component first builds the tree of
  elements. The status panel shows \<^verbatim>\<open>{connectionStatus}\<close> and, on a connected client,
  the message count and the time of the last message. The list is a placeholder when the
  store is empty (with a hint once a message has arrived on a connected client), and
  otherwise one card for each record, in the order of \<^verbatim>\<open>satellites.values()\<close>. Building
  a card calls \<^verbatim>\<open>toFixed(6)\<close> on the latitude and the longitude and \<^verbatim>\<open>toFixed(2)\<close> on
  the altitude; on a value that is not a number the call throws a TypeError, which fails
  the render. The two formatting functions of the platform (\<^verbatim>\<open>toFixed\<close> on a number and
  \<^verbatim>\<open>toLocaleTimeString\<close>) are parameters.

  React then mounts the tree, and refuses a child that is an object: a text or a number
  is shown, a boolean, \<^verbatim>\<open>null\<close> and \<^verbatim>\<open>undefined\<close> show nothing, an array shows its
  elements, an object makes React throw. The children that come from messages are the
  status text and the name and the norad of every card (lines 175, 211 and 212).
\<close>

record 't card =
  card_name :: jsval
  card_norad :: jsval
  card_lat :: 't
  card_lon :: 't
  card_alt :: 't
  card_time :: 't

definition toFixed :: "(nat \<Rightarrow> jsnum \<Rightarrow> 't) \<Rightarrow> nat \<Rightarrow> jsval \<Rightarrow> exn + 't" where
  "toFixed fmt digits v = (case v of Num x \<Rightarrow> Inr (fmt digits x) | _ \<Rightarrow> Inl TypeError)"

text \<open>The element that the callback of \<^verbatim>\<open>map\<close> builds for a record, lines 202 to 219.\<close>

definition card_element ::
  "(nat \<Rightarrow> jsnum \<Rightarrow> 't) \<Rightarrow> (nat \<Rightarrow> 't) \<Rightarrow> SatelliteData \<Rightarrow> exn + 't card" where
  "card_element fmt time sat =
     (case toFixed fmt 6 (lat sat) of
        Inl e \<Rightarrow> Inl e
      | Inr la \<Rightarrow>
          (case toFixed fmt 6 (lon sat) of
             Inl e \<Rightarrow> Inl e
           | Inr lo \<Rightarrow>
               (case toFixed fmt 2 (alt sat) of
                  Inl e \<Rightarrow> Inl e
                | Inr al \<Rightarrow>
                    Inr \<lparr>card_name = name sat, card_norad = norad sat, card_lat = la,
                         card_lon = lo, card_alt = al,
                         card_time = time (timestamp sat)\<rparr>)))"

fun collect :: "(exn + 'a) list \<Rightarrow> exn + 'a list" where
  "collect [] = Inr []"
| "collect (Inl e # rs) = Inl e"
| "collect (Inr x # rs) = (case collect rs of Inl e \<Rightarrow> Inl e | Inr xs \<Rightarrow> Inr (x # xs))"

datatype 't listing = WaitingForData bool | Cards "'t card list"

definition cards ::
  "(nat \<Rightarrow> jsnum \<Rightarrow> 't) \<Rightarrow> (nat \<Rightarrow> 't) \<Rightarrow> state \<Rightarrow> (exn + 't card) list" where
  "cards fmt time s = map (\<lambda>e. card_element fmt time (snd e)) (satellites s)"

text \<open>The list as the component builds it, lines 188 to 222.\<close>

definition listing ::
  "(nat \<Rightarrow> jsnum \<Rightarrow> 't) \<Rightarrow> (nat \<Rightarrow> 't) \<Rightarrow> state \<Rightarrow> exn + 't listing" where
  "listing fmt time s =
     (if length (satellites s) = 0 then Inr (WaitingForData (connected s \<and> messageCount s > 0))
      else case collect (cards fmt time s) of Inl e \<Rightarrow> Inl e | Inr cs \<Rightarrow> Inr (Cards cs))"

text \<open>What React accepts as a child.\<close>

fun react_child :: "jsval \<Rightarrow> bool" where
  "react_child (Obj kvs) = False"
| "react_child (Arr xs) = (\<forall>x \<in> set xs. react_child x)"
| "react_child v = True"

record 't view =
  view_status :: jsval
  view_counters :: "(nat \<times> 't option) option"
  view_list :: "'t listing"

text \<open>
  The render: the tree is built (a TypeError of a card comes first), then its children
  are checked.
\<close>

definition render ::
  "(nat \<Rightarrow> jsnum \<Rightarrow> 't) \<Rightarrow> (nat \<Rightarrow> 't) \<Rightarrow> state \<Rightarrow> exn + 't view" where
  "render fmt time s =
     (case listing fmt time s of
        Inl e \<Rightarrow> Inl e
      | Inr l \<Rightarrow>
          if react_child (connectionStatus s) \<and>
             list_all (\<lambda>e. react_child (name (snd e)) \<and> react_child (norad (snd e)))
               (satellites s)
          then Inr \<lparr>view_status = connectionStatus s,
                    view_counters =
                      (if connected s
                       then Some (messageCount s, map_option time (lastMessageTime s))
                       else None),
                    view_list = l\<rparr>
          else Inl InvalidChild)"

text \<open>
  A record that has the types of the interface \<^verbatim>\<open>SatelliteData\<close> (lines 29 to 36): a
  textual name and numbers for the rest.
\<close>

definition well_typed :: "SatelliteData \<Rightarrow> bool" where
  "well_typed sat \<longleftrightarrow>
     is_str (name sat) \<and> is_num (norad sat) \<and> is_num (lat sat) \<and> is_num (lon sat) \<and>
     is_num (alt sat)"

section \<open>The messages of the data model\<close>

text \<open>
  The altitude normalization as the specification words it: a numeric altitude as it is;
  of a textual one, the trailing unit suffix and the surrounding white space are stripped,
  and the rest is parsed as a floating-point number.
\<close>

definition strip_suffix :: "jsstring \<Rightarrow> jsstring \<Rightarrow> jsstring" where
  "strip_suffix suf s = (if suffix suf s then take (length s - length suf) s else s)"

definition altitude_spec :: "jsval \<Rightarrow> jsval" where
  "altitude_spec a =
     (case a of
        Str s \<Rightarrow> Num (parseFloat (js_trim (strip_suffix (str ''km'') (js_trim s))))
      | _ \<Rightarrow> a)"

text \<open>
  The altitude text of the wire form, a float with the suffix \<^verbatim>\<open>km\<close>: the characters of a
  float (digits, sign, point, exponent mark), then the unit; white space may stand among
  them and after the unit, as in the example \<^verbatim>\<open> 400 km \<close> of the specification.
\<close>

definition float_char :: "jschar \<Rightarrow> bool" where
  "float_char c \<longleftrightarrow>
     is_digit c \<or> c = 0x2B \<or> c = 0x2D \<or> c = 0x2E \<or> c = 0x65 \<or> c = 0x45 \<or> is_ws c"

definition unit_text :: "jsstring \<Rightarrow> bool" where
  "unit_text s \<longleftrightarrow>
     prefix (str ''km'') (dropWhile float_char s) \<and>
     list_all is_ws (drop 2 (dropWhile float_char s))"

text \<open>
  A position message of the data model: an object with a textual name, numeric
  \<^verbatim>\<open>norad\<close>, \<^verbatim>\<open>lat\<close> and \<^verbatim>\<open>lon\<close>, and an altitude that is a number or a text of the
  wire form. It is not a connection message.
\<close>

definition valid_position :: "jsval \<Rightarrow> bool" where
  "valid_position d \<longleftrightarrow>
     (case d of Obj kvs \<Rightarrow> True | _ \<Rightarrow> False) \<and>
     is_str (get_prop (str ''name'') d) \<and>
     is_num (get_prop (str ''norad'') d) \<and>
     is_num (get_prop (str ''lat'') d) \<and>
     is_num (get_prop (str ''lon'') d) \<and>
     (case get_prop (str ''alt'') d of Num x \<Rightarrow> True | Str s \<Rightarrow> unit_text s | _ \<Rightarrow> False) \<and>
     get_prop (str ''type'') d \<noteq> Str (str ''connection'')"

text \<open>An event that delivers a valid position message for the NORAD id \<open>n\<close>.\<close>

definition position_event :: "jsnum \<Rightarrow> event \<Rightarrow> bool" where
  "position_event n e =
     (case e of
        Message k ev \<Rightarrow>
          (case parsed ev of
             Some d \<Rightarrow> valid_position d \<and> get_prop (str ''norad'') d = Num n
           | None \<Rightarrow> False)
      | _ \<Rightarrow> False)"

text \<open>
  The record of the specification for a position message: the message's name, id,
  latitude and longitude, its altitude normalized as the specification words it, and the
  time \<open>t\<close> of the update.
\<close>

definition normalized :: "jsval \<Rightarrow> nat \<Rightarrow> SatelliteData" where
  "normalized d t =
     \<lparr>name = get_prop (str ''name'') d,
      norad = get_prop (str ''norad'') d,
      lat = get_prop (str ''lat'') d,
      lon = get_prop (str ''lon'') d,
      alt = altitude_spec (get_prop (str ''alt'') d),
      timestamp = t\<rparr>"

section \<open>Invariants of the connection manager\<close>

definition live :: "readyState \<Rightarrow> bool" where
  "live r \<longleftrightarrow> r = CONNECTING \<or> r = OPEN"

text \<open>
  What holds in every state the component can reach: a pending timeout is the one whose
  handle \<open>reconnectTimeout\<close> holds, and there is at most one; while mounted, no socket is
  closing, a socket that is connecting or open is the one \<open>ws\<close> names, and no socket is
  connecting or open while a timeout is pending; after the cleanup nothing is pending.
\<close>

definition manager_inv :: "state \<Rightarrow> bool" where
  "manager_inv s \<longleftrightarrow>
     length (timers s) \<le> 1 \<and>
     list_all (\<lambda>t. reconnectTimeout s = Some (handle t)) (timers s) \<and>
     (isMounted s \<or> timers s = []) \<and>
     (\<not> isMounted s \<or>
        (list_all (\<lambda>r. r \<noteq> CLOSING) (sockets s) \<and>
         list_all (\<lambda>k. \<not> live (sockets s ! k) \<or> ws s = Some k) [0 ..< length (sockets s)] \<and>
         (timers s = [] \<or> list_all (\<lambda>r. \<not> live r) (sockets s))))"

text \<open>The React state of the component, which the view reads.\<close>

definition react_state ::
  "state \<Rightarrow> (mapkey \<times> SatelliteData) list \<times> bool \<times> jsval \<times> nat \<times> nat option" where
  "react_state s =
     (satellites s, connected s, connectionStatus s, messageCount s, lastMessageTime s)"

section \<open>Example messages\<close>

text \<open>
  The two message bodies of the streaming endpoint, as JSON text and as the value
  \<^verbatim>\<open>JSON.parse\<close> returns for it. The numbers of a position are given as their text and
  their value; the altitude is given as the text and the value of the JSON member.
\<close>

definition quoted :: "string \<Rightarrow> jsstring" where
  "quoted s = 0x22 # str s @ [0x22]"

definition position_text :: "string \<Rightarrow> string \<Rightarrow> string \<Rightarrow> string \<Rightarrow> jsstring \<Rightarrow> jsstring" where
  "position_text nm n la lo al =
     str ''{'' @ quoted ''name'' @ str '':'' @ quoted nm @
     str '','' @ quoted ''norad'' @ str '':'' @ str n @
     str '','' @ quoted ''lat'' @ str '':'' @ str la @
     str '','' @ quoted ''lon'' @ str '':'' @ str lo @
     str '','' @ quoted ''alt'' @ str '':'' @ al @ str ''}''"

definition position_json :: "string \<Rightarrow> rat \<Rightarrow> rat \<Rightarrow> rat \<Rightarrow> jsval \<Rightarrow> jsval" where
  "position_json nm n la lo al =
     Obj [(str ''name'', Str (str nm)), (str ''norad'', Num (Fin n)),
          (str ''lat'', Num (Fin la)), (str ''lon'', Num (Fin lo)), (str ''alt'', al)]"

definition connection_text :: "string \<Rightarrow> jsstring" where
  "connection_text m =
     str ''{'' @ quoted ''type'' @ str '':'' @ quoted ''connection'' @
     str '','' @ quoted ''message'' @ str '':'' @ quoted m @
     str '','' @ quoted ''status'' @ str '':'' @ quoted ''connected'' @ str ''}''"

definition connection_json :: "string \<Rightarrow> jsval" where
  "connection_json m =
     Obj [(str ''type'', Str (str ''connection'')), (str ''message'', Str (str m)),
          (str ''status'', Str (str ''connected''))]"

text \<open>ISS at latitude 10 with the altitude as a text, then at latitude 11 with a number.\<close>

definition iss_first :: message_event where
  "iss_first =
     \<lparr>data = position_text ''ISS'' ''25544'' ''10'' ''20'' (quoted ''550.5km''),
      parsed = Some (position_json ''ISS'' 25544 10 20 (Str (str ''550.5km''))),
      date1 = 1000, date2 = 1000\<rparr>"

definition iss_second :: message_event where
  "iss_second =
     \<lparr>data = position_text ''ISS'' ''25544'' ''11'' ''20'' (str ''420''),
      parsed = Some (position_json ''ISS'' 25544 11 20 (Num (Fin 420))),
      date1 = 2000, date2 = 2001\<rparr>"

text \<open>ISS at latitude 12 with the altitude text \<^verbatim>\<open> 400 km \<close>.\<close>

definition iss_third :: message_event where
  "iss_third =
     \<lparr>data = position_text ''ISS'' ''25544'' ''12'' ''20'' (quoted '' 400 km ''),
      parsed = Some (position_json ''ISS'' 25544 12 20 (Str (str '' 400 km ''))),
      date1 = 2500, date2 = 2501\<rparr>"

text \<open>A position whose altitude is the text \<^verbatim>\<open>unknown\<close>.\<close>

definition iss_unknown :: message_event where
  "iss_unknown =
     \<lparr>data = position_text ''ISS'' ''25544'' ''10'' ''20'' (quoted ''unknown''),
      parsed = Some (position_json ''ISS'' 25544 10 20 (Str (str ''unknown''))),
      date1 = 3000, date2 = 3000\<rparr>"

text \<open>The greeting of the server.\<close>

definition greeting :: message_event where
  "greeting =
     \<lparr>data = connection_text ''Connected to satellite feed'',
      parsed = Some (connection_json ''Connected to satellite feed''),
      date1 = 500, date2 = 500\<rparr>"

text \<open>A message that has the field \<^verbatim>\<open>norad\<close> and the field \<^verbatim>\<open>type\<close> with value \<^verbatim>\<open>connection\<close>.\<close>

definition tagged_position :: message_event where
  "tagged_position =
     \<lparr>data = str ''{'' @ quoted ''type'' @ str '':'' @ quoted ''connection'' @
             str '','' @ quoted ''message'' @ str '':'' @ quoted ''hi'' @
             str '','' @ quoted ''norad'' @ str '':25544}'',
      parsed = Some (Obj [(str ''type'', Str (str ''connection'')),
                          (str ''message'', Str (str ''hi'')),
                          (str ''norad'', Num (Fin 25544))]),
      date1 = 4000, date2 = 4000\<rparr>"

text \<open>A text that is not JSON.\<close>

definition garbage :: message_event where
  "garbage = \<lparr>data = str ''{oops'', parsed = None, date1 = 5000, date2 = 5000\<rparr>"

text \<open>The state of a client whose first connection has opened.\<close>

definition connected_client :: state where
  "connected_client = deliver (Open 0) (mount True)"

text \<open>
  A client that has received the first ISS message and has then lost its connection: the
  reconnect is pending.
\<close>

definition lost_connection :: state where
  "lost_connection = run [Open 0, Message 0 iss_first, Close 0] (mount True)"

text \<open>
  The first connection fails (the socket reports an error and closes), the timeout
  expires and a second socket is constructed, and that socket fails in the same way
  without having opened.
\<close>

definition retry_fails :: "event list" where
  "retry_fails = [Error 0, Close 0, Timeout 1 True, Error 1, Close 1]"

section \<open>Lemmas about the store\<close>

lemma map_of_map_set: "map_of (map_set k v es) = (map_of es)(k \<mapsto> v)"
  by (induction es) (auto simp: fun_eq_iff)

lemma keys_map_set: "fst ` set (map_set k v es) = insert k (fst ` set es)"
  by (induction es) auto

lemma distinct_map_set:
  "distinct (map fst es) \<Longrightarrow> distinct (map fst (map_set k v es))"
  by (induction es) (auto simp: keys_map_set)

lemma filter_absent: "k \<notin> fst ` set es \<Longrightarrow> filter (\<lambda>e. fst e = k) es = []"
  by (induction es) auto

lemma filter_map_set:
  "distinct (map fst es) \<Longrightarrow> filter (\<lambda>e. fst e = k) (map_set k v es) = [(k, v)]"
  by (induction es) (auto simp: filter_absent)

section \<open>What each handler leaves alone\<close>

lemma satellites_connect [simp]: "satellites (connect c s) = satellites s"
  by (simp add: connect_def console_log_def setTimeout_def Let_def)

lemma satellites_onopen [simp]: "satellites (onopen s) = satellites s"
  by (simp add: onopen_def console_log_def clearTimeout_def Let_def split: option.splits)

lemma satellites_onerror [simp]: "satellites (onerror s) = satellites s"
  by (simp add: onerror_def console_log_def)

lemma satellites_onclose [simp]: "satellites (onclose s) = satellites s"
  by (simp add: onclose_def console_log_def setTimeout_def Let_def)

lemma satellites_run_callback [simp]: "satellites (run_callback cb c s) = satellites s"
  by (cases cb) (simp_all add: console_log_def)

lemma satellites_cleanup [simp]: "satellites (cleanup s) = satellites s"
  by (simp add: cleanup_def clearTimeout_def ws_close_def Let_def split: option.splits)

lemma satellites_classify:
  "classify ev d s = Inr s' \<Longrightarrow>
     satellites s' = satellites s \<or>
     satellites s' = map_set (mapkey_of (allocated s) (get_prop (str ''norad'') d))
                       (satelliteData d (date2 ev)) (satellites s)"
  by (auto simp: classify_def console_log_def Let_def
           split: sum.splits bool.splits)

lemma satellites_count_message [simp]: "satellites (count_message ev s) = satellites s"
  by (simp add: count_message_def console_log_def Let_def)

lemma isMounted_count_message [simp]: "isMounted (count_message ev s) = isMounted s"
  by (simp add: count_message_def console_log_def Let_def)

lemma satellites_caught [simp]: "satellites (caught ev e s) = satellites s"
  by (simp add: caught_def console_log_def)

lemma satellites_onmessage:
  "satellites (onmessage ev s) = satellites s \<or>
   (\<exists>k r. satellites (onmessage ev s) = map_set k r (satellites s))"
proof (cases "isMounted s")
  case False
  then show ?thesis by (simp add: onmessage_def)
next
  case True
  show ?thesis
  proof (cases "parsed ev")
    case None
    with True show ?thesis by (simp add: onmessage_def)
  next
    case (Some d)
    let ?s2 = "(count_message ev s)\<lparr>allocated := Suc (allocated (count_message ev s))\<rparr>"
    show ?thesis
    proof (cases "classify ev d ?s2")
      case (Inl e)
      with True Some show ?thesis by (simp add: onmessage_def Let_def)
    next
      case (Inr s3)
      from satellites_classify [OF Inr]
      have "satellites s3 = satellites s \<or> (\<exists>k r. satellites s3 = map_set k r (satellites s))"
        by auto
      moreover have "onmessage ev s = s3"
        using True Some Inr by (simp add: onmessage_def Let_def)
      ultimately show ?thesis by simp
    qed
  qed
qed

lemma distinct_keys_deliver:
  assumes "distinct (map fst (satellites s))"
  shows "distinct (map fst (satellites (deliver e s)))"
proof (cases e)
  case (Message k ev)
  from satellites_onmessage [of ev s] assms show ?thesis
    unfolding Message by (auto simp: distinct_map_set)
next
  case (Timeout h c)
  with assms show ?thesis by (simp add: clearTimeout_def split: option.splits)
qed (use assms in simp_all)

lemma distinct_keys_reachable: "reachable s \<Longrightarrow> distinct (map fst (satellites s))"
proof (induction rule: reachable.induct)
  case (start c)
  show ?case by (simp add: mount_def initial_def)
next
  case (step s e)
  then show ?case by (simp add: distinct_keys_deliver)
qed

section \<open>Lemmas about position updates\<close>

lemma valid_position_classify:
  assumes "valid_position d" and "get_prop (str ''norad'') d = Num n"
  shows "classify ev d s =
     Inr (s\<lparr>satellites := map_set (KPrim (Num n)) (satelliteData d (date2 ev)) (satellites s)\<rparr>)"
proof -
  from assms(1) obtain kvs where d: "d = Obj kvs"
    by (auto simp: valid_position_def split: jsval.splits)
  from assms(1) have nc: "get_prop (str ''type'') d \<noteq> Str (str ''connection'')"
    by (simp add: valid_position_def)
  have c: "isConnectionMessage d = Inr False"
    using nc by (simp add: isConnectionMessage_def d)
  have p: "isSatellitePosition d = Inr True"
    using assms(2) by (auto simp: isSatellitePosition_def d split: option.splits)
  show ?thesis
    by (simp add: classify_def c p assms(2))
qed

lemma onmessage_position:
  assumes "isMounted s" and "parsed ev = Some d" and "valid_position d"
    and "get_prop (str ''norad'') d = Num n"
  shows "satellites (onmessage ev s) =
           map_set (KPrim (Num n)) (satelliteData d (date2 ev)) (satellites s)"
    and "isMounted (onmessage ev s)"
  using assms by (simp_all add: onmessage_def Let_def valid_position_classify)

lemma position_event_deliver:
  assumes "position_event n e" and "isMounted s"
  obtains k ev d where "e = Message k ev" and "parsed ev = Some d"
    and "satellites (deliver e s) =
           map_set (KPrim (Num n)) (satelliteData d (date2 ev)) (satellites s)"
    and "isMounted (deliver e s)"
  using assms
  by (auto simp: position_event_def onmessage_position split: event.splits option.splits)

lemma run_append: "run (es @ es') s = run es' (run es s)"
  by (induction es arbitrary: s) simp_all

lemma run_position_events:
  assumes "\<forall>e \<in> set es. position_event n e" and "isMounted s"
    and "distinct (map fst (satellites s))"
  shows "isMounted (run es s) \<and> distinct (map fst (satellites (run es s)))"
  using assms
proof (induction es arbitrary: s)
  case Nil
  then show ?case by simp
next
  case (Cons e es)
  from Cons.prems have pe: "position_event n e" by simp
  from position_event_deliver [OF pe Cons.prems(2)]
  have "isMounted (deliver e s)" by metis
  moreover have "distinct (map fst (satellites (deliver e s)))"
    using Cons.prems(3) by (rule distinct_keys_deliver)
  ultimately show ?case using Cons.IH [of "deliver e s"] Cons.prems(1) by simp
qed

section \<open>Lemmas about the altitude text\<close>

lemmas altitude_eval =
  altValue_def altitude_spec_def strip_suffix_def str_def js_trim_def is_ws_def parseFloat_def
  is_digit_def digits_val_def exponent_part_def Let_def

lemma km_not_ws: "\<not> is_ws 0x6B" "\<not> is_ws 0x6D"
  by (simp_all add: is_ws_def)

lemma str_km: "str ''km'' = [0x6B, 0x6D]"
  by (simp add: str_def)

lemma js_replace_absent: "\<not> sublist pat s \<Longrightarrow> js_replace pat rep s = s"
  by (induction s) (auto simp: sublist_Cons_right)

lemma js_replace_km_first:
  "\<not> sublist (str ''km'') (a @ [0x6B]) \<Longrightarrow> js_replace (str ''km'') [] (a @ str ''km'' @ b) = a @ b"
proof (induction a)
  case Nil
  show ?case by (simp add: str_km)
next
  case (Cons c a)
  from Cons.prems have np: "\<not> prefix (str ''km'') (c # a @ [0x6B])"
    and ns: "\<not> sublist (str ''km'') (a @ [0x6B])"
    by (simp_all add: sublist_Cons_right)
  from np have "\<not> prefix (str ''km'') (c # a @ str ''km'' @ b)"
    by (cases a) (auto simp: str_km)
  with Cons.IH [OF ns] show ?case by simp
qed

lemma js_trim_append_ws:
  assumes "\<forall>c \<in> set w. is_ws c"
  shows "js_trim (a @ w) = js_trim a"
proof (cases "\<forall>c \<in> set a. is_ws c")
  case True
  with assms have "dropWhile is_ws (a @ w) = []" and "dropWhile is_ws a = []"
    by (simp_all add: dropWhile_eq_Nil_conv ball_Un)
  then show ?thesis by (simp add: js_trim_def del: dropWhile_eq_Nil_conv)
next
  case False
  then have "dropWhile is_ws (a @ w) = dropWhile is_ws a @ w"
    by (auto simp: dropWhile_append1)
  moreover from assms have "dropWhile is_ws (rev w @ rev (dropWhile is_ws a))
      = dropWhile is_ws (rev (dropWhile is_ws a))"
    using dropWhile_append2 [of "rev w" is_ws "rev (dropWhile is_ws a)"] by simp
  ultimately show ?thesis by (simp add: js_trim_def)
qed

lemma js_trim_km_suffix:
  assumes "\<forall>c \<in> set w. is_ws c"
  shows "js_trim (a @ str ''km'' @ w) = dropWhile is_ws a @ str ''km''"
proof -
  have "dropWhile is_ws (a @ str ''km'' @ w) = dropWhile is_ws a @ str ''km'' @ w"
    by (simp add: str_km dropWhile_append3 km_not_ws)
  moreover from assms have "dropWhile is_ws (rev w @ [0x6D, 0x6B] @ rev (dropWhile is_ws a))
      = [0x6D, 0x6B] @ rev (dropWhile is_ws a)"
    using dropWhile_append2 [of "rev w" is_ws "[0x6D, 0x6B] @ rev (dropWhile is_ws a)"]
    by (simp add: km_not_ws)
  ultimately show ?thesis by (simp add: js_trim_def str_km)
qed

lemma js_trim_dropWhile: "js_trim (dropWhile is_ws a) = js_trim a"
  by (simp add: js_trim_def)

lemma altitude_spec_km_suffix:
  assumes "\<forall>c \<in> set w. is_ws c"
  shows "altitude_spec (Str (a @ str ''km'' @ w)) = Num (parseFloat (js_trim a))"
  by (simp add: altitude_spec_def js_trim_km_suffix [OF assms] strip_suffix_def
      js_trim_dropWhile suffix_def)

lemma sublist_km_has_m: "sublist (str ''km'') xs \<Longrightarrow> 0x6D \<in> set xs"
  by (auto simp: sublist_def str_km)

lemma float_char_not_m: "float_char c \<Longrightarrow> c \<noteq> 0x6D"
  by (auto simp: float_char_def is_digit_def is_ws_def)

lemma unit_text_split:
  assumes "unit_text s"
  obtains a w where "s = a @ str ''km'' @ w" and "\<not> sublist (str ''km'') (a @ [0x6B])"
    and "\<forall>c \<in> set w. is_ws c"
proof -
  let ?a = "takeWhile float_char s" and ?r = "dropWhile float_char s"
  from assms have p: "prefix (str ''km'') ?r" and w: "list_all is_ws (drop 2 ?r)"
    by (simp_all add: unit_text_def)
  from p have r: "?r = str ''km'' @ drop 2 ?r"
    by (auto simp: prefix_def str_km)
  have "s = ?a @ ?r" by simp
  with r have s: "s = ?a @ str ''km'' @ drop 2 ?r" by simp
  have "0x6D \<notin> set (?a @ [0x6B])"
    using float_char_not_m by (auto dest: set_takeWhileD)
  then have n: "\<not> sublist (str ''km'') (?a @ [0x6B])"
    using sublist_km_has_m by blast
  from w have "\<forall>c \<in> set (drop 2 ?r). is_ws c" by (simp add: list_all_iff)
  with s n show ?thesis by (rule that)
qed

lemma altValue_unit_text:
  assumes "unit_text s"
  shows "altValue (Str s) = altitude_spec (Str s)"
proof -
  from assms obtain a w where s: "s = a @ str ''km'' @ w"
    and n: "\<not> sublist (str ''km'') (a @ [0x6B])" and w: "\<forall>c \<in> set w. is_ws c"
    by (rule unit_text_split)
  from n have "altValue (Str s) = Num (parseFloat (js_trim (a @ w)))"
    by (simp add: s altValue_def js_replace_km_first)
  also from w have "js_trim (a @ w) = js_trim a" by (rule js_trim_append_ws)
  also from w have "Num (parseFloat (js_trim a)) = altitude_spec (Str s)"
    by (simp add: s altitude_spec_km_suffix)
  finally show ?thesis .
qed

lemma valid_position_normalized:
  assumes "valid_position d"
  shows "satelliteData d t = normalized d t"
proof -
  from assms have "altValue (get_prop (str ''alt'') d) = altitude_spec (get_prop (str ''alt'') d)"
    by (cases "get_prop (str ''alt'') d")
      (simp_all add: valid_position_def altValue_unit_text, simp_all add: altValue_def altitude_spec_def)
  then show ?thesis by (simp add: satelliteData_def normalized_def)
qed

section \<open>The invariant holds in every reachable state\<close>

lemma manager_inv_iff:
  "manager_inv s \<longleftrightarrow>
     length (timers s) \<le> 1 \<and>
     (\<forall>t \<in> set (timers s). reconnectTimeout s = Some (handle t)) \<and>
     (isMounted s \<or> timers s = []) \<and>
     (isMounted s \<longrightarrow>
        (\<forall>r \<in> set (sockets s). r \<noteq> CLOSING) \<and>
        (\<forall>k < length (sockets s). live (sockets s ! k) \<longrightarrow> ws s = Some k) \<and>
        (timers s \<noteq> [] \<longrightarrow> (\<forall>r \<in> set (sockets s). \<not> live r)))"
  by (auto simp: manager_inv_def list_all_iff)

lemma find_timer_Some: "find_timer h ts = Some t \<Longrightarrow> t \<in> set ts \<and> handle t = h"
  by (induction ts) (auto split: if_splits)

lemma manager_inv_mount: "manager_inv (mount c)"
  by (simp add: manager_inv_iff mount_def connect_def initial_def console_log_def
      setTimeout_def live_def Let_def)

lemma timers_empty_if_no_handle:
  "manager_inv s \<Longrightarrow> reconnectTimeout s = None \<Longrightarrow> timers s = []"
  by (cases "timers s") (auto simp: manager_inv_iff)

lemma clear_held_timer:
  assumes "manager_inv s" and "reconnectTimeout s = Some h"
  shows "filter (\<lambda>t. handle t \<noteq> h) (timers s) = []"
  using assms by (auto simp: manager_inv_iff filter_empty_conv)

lemma clear_found_timer:
  assumes "manager_inv s" and "find_timer h (timers s) = Some t"
  shows "filter (\<lambda>t. handle t \<noteq> h) (timers s) = []" and "reconnectTimeout s = Some h"
    and "isMounted s"
proof -
  from find_timer_Some [OF assms(2)] have t: "t \<in> set (timers s)" "handle t = h" by simp_all
  with assms(1) show rt: "reconnectTimeout s = Some h" by (auto simp: manager_inv_iff)
  from assms(1) rt show "filter (\<lambda>t. handle t \<noteq> h) (timers s) = []"
    by (rule clear_held_timer)
  from assms(1) t show "isMounted s" by (auto simp: manager_inv_iff)
qed

lemma manager_inv_onopen:
  assumes "manager_inv s" and "k < length (sockets s)" and "sockets s ! k = CONNECTING"
  shows "manager_inv (onopen (s\<lparr>sockets := (sockets s)[k := OPEN]\<rparr>))"
proof (cases "isMounted s")
  case False
  with assms(1) show ?thesis by (simp add: onopen_def manager_inv_iff)
next
  case True
  from assms(1) True have ws: "ws s = Some k"
    using assms(2,3) by (simp add: manager_inv_iff live_def)
  from assms(1) True have nc: "\<forall>r \<in> set (sockets s). r \<noteq> CLOSING"
    and lv: "\<forall>j < length (sockets s). live (sockets s ! j) \<longrightarrow> ws s = Some j"
    by (simp_all add: manager_inv_iff)
  have nc': "\<forall>r \<in> set ((sockets s)[k := OPEN]). r \<noteq> CLOSING"
    using nc set_update_subset_insert [of "sockets s" k OPEN] by auto
  have lv': "\<forall>j < length (sockets s). live ((sockets s)[k := OPEN] ! j) \<longrightarrow> ws s = Some j"
    using lv ws assms(2) by (auto simp: nth_list_update split: if_splits)
  show ?thesis
  proof (cases "reconnectTimeout s")
    case None
    with assms(1) have "timers s = []" by (rule timers_empty_if_no_handle)
    with True None nc' lv' show ?thesis
      by (simp add: onopen_def manager_inv_iff console_log_def Let_def)
  next
    case (Some h)
    with assms(1) have "filter (\<lambda>t. handle t \<noteq> h) (timers s) = []" by (rule clear_held_timer)
    with True Some nc' lv' show ?thesis
      by (simp add: onopen_def manager_inv_iff console_log_def clearTimeout_def Let_def)
  qed
qed

lemma manager_inv_onmessage: "manager_inv s \<Longrightarrow> manager_inv (onmessage ev s)"
  by (auto simp: onmessage_def manager_inv_iff count_message_def caught_def classify_def
      console_log_def Let_def split: option.splits sum.splits bool.splits)

lemma manager_inv_onerror: "manager_inv s \<Longrightarrow> manager_inv (onerror s)"
  by (auto simp: onerror_def manager_inv_iff console_log_def)

lemma manager_inv_onclose:
  assumes "manager_inv s" and "k < length (sockets s)" and "sockets s ! k \<noteq> CLOSED"
  shows "manager_inv (onclose (s\<lparr>sockets := (sockets s)[k := CLOSED]\<rparr>))"
proof (cases "isMounted s")
  case False
  with assms(1) show ?thesis by (simp add: onclose_def manager_inv_iff)
next
  case True
  from assms(1) True have nc: "\<forall>r \<in> set (sockets s). r \<noteq> CLOSING"
    and lv: "\<forall>j < length (sockets s). live (sockets s ! j) \<longrightarrow> ws s = Some j"
    and tl: "timers s \<noteq> [] \<longrightarrow> (\<forall>r \<in> set (sockets s). \<not> live r)"
    by (simp_all add: manager_inv_iff)
  from nc assms(2,3) have "live (sockets s ! k)"
    by (cases "sockets s ! k") (auto simp: live_def)
  with lv assms(2) have ws: "ws s = Some k" by simp
  have nc': "\<forall>r \<in> set ((sockets s)[k := CLOSED]). r \<noteq> CLOSING"
    using nc set_update_subset_insert [of "sockets s" k CLOSED] by auto
  have lv': "\<forall>j < length (sockets s). live ((sockets s)[k := CLOSED] ! j) \<longrightarrow> ws s = Some j"
    using lv assms(2) by (auto simp: nth_list_update live_def split: if_splits)
  have dead: "\<forall>r \<in> set ((sockets s)[k := CLOSED]). \<not> live r"
  proof
    fix r assume "r \<in> set ((sockets s)[k := CLOSED])"
    then obtain j where j: "j < length (sockets s)" "r = (sockets s)[k := CLOSED] ! j"
      by (auto simp: in_set_conv_nth)
    show "\<not> live r"
    proof (cases "j = k")
      case True
      with j show ?thesis by (simp add: live_def)
    next
      case False
      with j lv ws show ?thesis by auto
    qed
  qed
  show ?thesis
  proof (cases "reconnectTimeout s")
    case None
    with assms(1) have "timers s = []" by (rule timers_empty_if_no_handle)
    with True None nc' lv' dead show ?thesis
      by (simp add: onclose_def manager_inv_iff console_log_def setTimeout_def Let_def)
  next
    case (Some h)
    with assms(1) True nc' lv' dead show ?thesis
      by (simp add: onclose_def manager_inv_iff console_log_def Let_def)
  qed
qed

lemma manager_inv_timeout:
  assumes "manager_inv s" and "find_timer h (timers s) = Some t"
  shows "manager_inv (run_callback (callback t) c (clearTimeout h s))"
proof -
  note f = clear_found_timer [OF assms]
  from find_timer_Some [OF assms(2)] have "timers s \<noteq> []" by auto
  with assms(1) f(3) have nc: "\<forall>r \<in> set (sockets s). r \<noteq> CLOSING"
    and dead: "\<forall>r \<in> set (sockets s). \<not> live r"
    by (simp_all add: manager_inv_iff)
  from dead have dead': "\<forall>j < length (sockets s). \<not> live (sockets s ! j)" by simp
  have "manager_inv (connect c (s\<lparr>timers := [], console := l\<rparr>))" for l
    using f(3) nc dead dead'
    by (cases c) (auto simp: connect_def manager_inv_iff console_log_def setTimeout_def
        Let_def live_def nth_append)
  from this [of "console s"] this [of "console s @ [AttemptingToReconnect]"] f show ?thesis
    by (cases "callback t") (simp_all add: clearTimeout_def console_log_def)
qed

lemma manager_inv_cleanup:
  assumes "manager_inv s"
  shows "manager_inv (cleanup s)"
proof -
  have "timers (cleanup s) = []"
  proof (cases "reconnectTimeout s")
    case None
    with assms have "timers s = []" by (rule timers_empty_if_no_handle)
    with None show ?thesis
      by (simp add: cleanup_def clearTimeout_def ws_close_def Let_def split: option.splits)
  next
    case (Some h)
    with assms have "filter (\<lambda>t. handle t \<noteq> h) (timers s) = []" by (rule clear_held_timer)
    with Some show ?thesis
      by (simp add: cleanup_def clearTimeout_def ws_close_def Let_def split: option.splits)
  qed
  moreover have "\<not> isMounted (cleanup s)"
    by (simp add: cleanup_def clearTimeout_def ws_close_def Let_def split: option.splits)
  ultimately show ?thesis by (simp add: manager_inv_iff)
qed

lemma manager_inv_deliver:
  assumes "manager_inv s" and "enabled s e"
  shows "manager_inv (deliver e s)"
proof (cases e)
  case (Open k)
  with assms show ?thesis by (simp add: manager_inv_onopen)
next
  case (Message k ev)
  with assms show ?thesis by (simp add: manager_inv_onmessage)
next
  case (Error k)
  with assms show ?thesis by (simp add: manager_inv_onerror)
next
  case (Close k)
  with assms show ?thesis by (simp add: manager_inv_onclose)
next
  case (Timeout h c)
  with assms show ?thesis by (auto simp: manager_inv_timeout)
next
  case Unmount
  with assms show ?thesis by (simp add: manager_inv_cleanup)
qed

lemma manager_inv_reachable: "reachable s \<Longrightarrow> manager_inv s"
  by (induction rule: reachable.induct) (simp_all add: manager_inv_mount manager_inv_deliver)

section \<open>What the message handler does with each kind of message\<close>

lemma count_message_fields [simp]:
  "connected (count_message ev s) = connected s"
  "connectionStatus (count_message ev s) = connectionStatus s"
  "messageCount (count_message ev s) = messageCount s + 1"
  "lastMessageTime (count_message ev s) = Some (date1 ev)"
  "ws (count_message ev s) = ws s"
  "reconnectTimeout (count_message ev s) = reconnectTimeout s"
  "sockets (count_message ev s) = sockets s"
  "timers (count_message ev s) = timers s"
  "allocated (count_message ev s) = allocated s"
  "console (count_message ev s) = console s"
  by (simp_all add: count_message_def console_log_def Let_def)

lemma caught_fields [simp]:
  "connected (caught ev e s) = connected s"
  "connectionStatus (caught ev e s) = connectionStatus s"
  "messageCount (caught ev e s) = messageCount s"
  "lastMessageTime (caught ev e s) = lastMessageTime s"
  "isMounted (caught ev e s) = isMounted s"
  "ws (caught ev e s) = ws s"
  "reconnectTimeout (caught ev e s) = reconnectTimeout s"
  "sockets (caught ev e s) = sockets s"
  "timers (caught ev e s) = timers s"
  "console (caught ev e s) = console s @ [ErrorParsingMessage e, RawMessageWas (data ev)]"
  by (simp_all add: caught_def console_log_def)

lemma classify_connection:
  assumes "map_of kvs (str ''type'') = Some (Str (str ''connection''))"
  shows "classify ev (Obj kvs) s =
     Inr ((console_log (ConnectionStatusLine (get_prop (str ''status'') (Obj kvs))) s)
            \<lparr>connectionStatus := get_prop (str ''message'') (Obj kvs)\<rparr>)"
  using assms by (simp add: classify_def isConnectionMessage_def)

lemma classify_position:
  assumes "map_of kvs (str ''type'') \<noteq> Some (Str (str ''connection''))"
    and "map_of kvs (str ''norad'') = Some v"
  shows "classify ev (Obj kvs) s =
     Inr (s\<lparr>satellites := map_set (mapkey_of (allocated s) v)
                             (satelliteData (Obj kvs) (date2 ev)) (satellites s)\<rparr>)"
proof -
  from assms(1) have "isConnectionMessage (Obj kvs) = Inr False"
    by (auto simp: isConnectionMessage_def split: option.splits)
  moreover from assms(2) have "isSatellitePosition (Obj kvs) = Inr True"
    by (simp add: isSatellitePosition_def)
  ultimately show ?thesis
    using assms(2) by (simp add: classify_def)
qed

lemma classify_unknown_object:
  assumes "map_of kvs (str ''type'') \<noteq> Some (Str (str ''connection''))"
    and "map_of kvs (str ''norad'') = None"
  shows "classify ev (Obj kvs) s = Inr (console_log (UnknownMessageFormat (Obj kvs)) s)"
proof -
  from assms(1) have "isConnectionMessage (Obj kvs) = Inr False"
    by (auto simp: isConnectionMessage_def split: option.splits)
  moreover from assms(2) have "isSatellitePosition (Obj kvs) = Inr False"
    by (simp add: isSatellitePosition_def)
  ultimately show ?thesis by (simp add: classify_def)
qed

lemma classify_array:
  "classify ev (Arr xs) s = Inr (console_log (UnknownMessageFormat (Arr xs)) s)"
  by (simp add: classify_def isConnectionMessage_def isSatellitePosition_def)

lemma classify_primitive:
  assumes "d = Null \<or> d = Bool b \<or> d = Num x \<or> d = Str t"
  shows "classify ev d s = Inl TypeError"
  using assms by (auto simp: classify_def isConnectionMessage_def)

lemma map_set_mem: "(k, v) \<in> set (map_set k v es)"
  by (induction es) auto

section \<open>Lemmas about the cleanup\<close>

lemma reachable_run: "reachable s \<Longrightarrow> feasible es s \<Longrightarrow> reachable (run es s)"
  by (induction es arbitrary: s) (auto intro: reachable.step)

lemma handlers_unmounted:
  assumes "\<not> isMounted s"
  shows "onopen s = s" and "onmessage ev s = s" and "onerror s = s" and "onclose s = s"
    and "run_callback cb c s = s"
  using assms by (simp_all add: onopen_def onmessage_def onerror_def onclose_def) (cases cb; simp)

lemma react_state_cleanup: "react_state (cleanup s) = react_state s"
  by (simp add: react_state_def cleanup_def clearTimeout_def ws_close_def Let_def
      split: option.splits)

lemma isMounted_cleanup: "\<not> isMounted (cleanup s)"
  by (simp add: cleanup_def clearTimeout_def ws_close_def Let_def split: option.splits)

lemma sockets_cleanup:
  "sockets (cleanup s) =
     (case ws s of
        None \<Rightarrow> sockets s
      | Some k \<Rightarrow> if k < length (sockets s) \<and> live (sockets s ! k)
                  then (sockets s)[k := CLOSING] else sockets s)"
  by (auto simp: cleanup_def clearTimeout_def ws_close_def live_def Let_def
      split: option.splits)

lemma deliver_unmounted:
  assumes "\<not> isMounted s"
  shows "react_state (deliver e s) = react_state s \<and> \<not> isMounted (deliver e s)"
proof (cases e)
  case (Open k)
  with assms show ?thesis by (simp add: onopen_def react_state_def)
next
  case (Message k ev)
  with assms show ?thesis by (simp add: onmessage_def)
next
  case (Error k)
  with assms show ?thesis by (simp add: onerror_def)
next
  case (Close k)
  with assms show ?thesis by (simp add: onclose_def react_state_def)
next
  case (Timeout h c)
  show ?thesis
  proof (cases "find_timer h (timers s)")
    case None
    with Timeout assms show ?thesis by simp
  next
    case (Some t)
    from assms have u: "\<not> isMounted (clearTimeout h s)" by (simp add: clearTimeout_def)
    have "react_state (clearTimeout h s) = react_state s"
      by (simp add: react_state_def clearTimeout_def)
    with Timeout Some u show ?thesis by (simp add: handlers_unmounted)
  qed
next
  case Unmount
  then show ?thesis by (simp add: react_state_cleanup isMounted_cleanup)
qed

lemma run_unmounted:
  "\<not> isMounted s \<Longrightarrow> react_state (run es s) = react_state s \<and> \<not> isMounted (run es s)"
proof (induction es arbitrary: s)
  case Nil
  then show ?case by simp
next
  case (Cons e es)
  from deliver_unmounted [OF Cons.prems, of e] Cons.IH [of "deliver e s"]
  show ?case by simp
qed

lemma cleanup_timers:
  assumes "manager_inv s"
  shows "timers (cleanup s) = []"
  using manager_inv_cleanup [OF assms] isMounted_cleanup [of s]
  by (simp add: manager_inv_iff)

lemma cleanup_sockets:
  assumes "manager_inv s" and "isMounted s"
  shows "list_all (\<lambda>r. \<not> live r) (sockets (cleanup s))"
proof -
  from assms have lv: "\<forall>j < length (sockets s). live (sockets s ! j) \<longrightarrow> ws s = Some j"
    by (simp add: manager_inv_iff)
  have "\<not> live (sockets (cleanup s) ! j)" if j: "j < length (sockets (cleanup s))" for j
  proof (cases "ws s")
    case None
    with lv j show ?thesis by (simp add: sockets_cleanup)
  next
    case (Some k)
    from j Some have jl: "j < length (sockets s)"
      by (simp add: sockets_cleanup split: if_splits)
    show ?thesis
    proof (cases "j = k")
      case True
      with jl Some show ?thesis by (simp add: sockets_cleanup live_def)
    next
      case False
      with lv jl Some have "\<not> live (sockets s ! j)" by auto
      with False jl Some show ?thesis by (simp add: sockets_cleanup)
    qed
  qed
  then show ?thesis by (simp add: list_all_length)
qed

section \<open>Lemmas about the cards of the view\<close>

lemma collect_all_Inr:
  assumes "\<And>r. r \<in> set rs \<Longrightarrow> \<exists>x. r = Inr x"
  shows "collect rs = Inr (map projr rs)"
  using assms
proof (induction rs)
  case Nil
  show ?case by simp
next
  case (Cons r rs)
  from Cons.prems obtain x where "r = Inr x" by auto
  moreover have "collect rs = Inr (map projr rs)" using Cons by simp
  ultimately show ?case by simp
qed

lemma card_element_well_typed:
  assumes "well_typed sat"
  shows "\<exists>c. card_element fmt time sat = Inr c \<and> card_norad c = norad sat
           \<and> (\<forall>x. alt sat = Num x \<longrightarrow> card_alt c = fmt 2 x)"
  using assms
  by (auto simp: well_typed_def is_num_def card_element_def toFixed_def split: jsval.splits)

lemma well_typed_children:
  assumes "well_typed sat"
  shows "react_child (name sat) \<and> react_child (norad sat)"
  using assms by (auto simp: well_typed_def is_num_def is_str_def split: jsval.splits)

section \<open>Consequences of the invariant\<close>

lemma at_most_one_pending_timer: "reachable s \<Longrightarrow> length (timers s) \<le> 1"
  using manager_inv_reachable [of s] by (simp add: manager_inv_iff)

lemma close_while_pending_schedules_nothing:
  assumes "reachable s" and "timers s \<noteq> []"
  shows "timers (deliver (Close k) s) = timers s"
proof -
  from assms obtain t where "t \<in> set (timers s)" by (cases "timers s") auto
  with manager_inv_reachable [OF assms(1)] have "reconnectTimeout s \<noteq> None"
    by (auto simp: manager_inv_iff)
  then show ?thesis by (auto simp: onclose_def console_log_def Let_def)
qed

lemma close_without_handle_schedules_one:
  assumes "isMounted s" and "reconnectTimeout s = None"
  shows "timers (deliver (Close k) s) =
           timers s @ [\<lparr>handle = nextTimer s, delay = 3000, callback = ReconnectAfterClose\<rparr>]"
  using assms by (simp add: onclose_def console_log_def setTimeout_def Let_def)

lemma error_marks_disconnected:
  assumes "isMounted s"
  shows "\<not> connected (deliver (Error k) s)"
    and "connectionStatus (deliver (Error k) s) = Str (str ''Connection error - retrying...'')"
    and "timers (deliver (Error k) s) = timers s"
    and "reconnectTimeout (deliver (Error k) s) = reconnectTimeout s"
  using assms by (simp_all add: onerror_def console_log_def)

lemma only_unmount_enabled:
  assumes "isMounted s" and "timers s = []" and "\<forall>r \<in> set (sockets s). r = CLOSED"
  shows "{e. enabled s e} = {Unmount}"
proof -
  have "enabled s e \<longleftrightarrow> e = Unmount" for e
    using assms by (cases e) (auto simp: all_set_conv_all_nth)
  then show ?thesis by auto
qed

section \<open>The example states, computed\<close>

lemmas example_defs =
  iss_first_def iss_second_def iss_third_def iss_unknown_def greeting_def tagged_position_def garbage_def
  position_json_def connection_json_def

lemmas handler_eval =
  onopen_def onmessage_def onerror_def onclose_def cleanup_def connect_def
  count_message_def caught_def classify_def isConnectionMessage_def isSatellitePosition_def
  console_log_def setTimeout_def clearTimeout_def ws_close_def satelliteData_def Let_def

lemma mount_True_eq:
  "mount True =
     \<lparr>satellites = [], connected = False, connectionStatus = Str (str ''Disconnected''),
      messageCount = 0, lastMessageTime = None,
      ws = Some 0, reconnectTimeout = None, isMounted = True,
      sockets = [CONNECTING], timers = [], nextTimer = 1, allocated = 0, console = [],
      updater_console = []\<rparr>"
  by (simp add: mount_def connect_def initial_def)

lemma connected_client_eq:
  "connected_client =
     \<lparr>satellites = [], connected = True, connectionStatus = Str (str ''Connected''),
      messageCount = 0, lastMessageTime = None,
      ws = Some 0, reconnectTimeout = None, isMounted = True,
      sockets = [OPEN], timers = [], nextTimer = 1, allocated = 0,
      console = [ConnectedToFeed], updater_console = []\<rparr>"
  by (simp add: connected_client_def mount_def connect_def initial_def onopen_def
      console_log_def Let_def)

lemma connected_client_reachable: "reachable connected_client"
  unfolding connected_client_def
  by (rule reachable.step [OF reachable.start]) (simp add: mount_True_eq)

lemma lost_connection_eq:
  "lost_connection =
     \<lparr>satellites = [(KPrim (Num (Fin 25544)),
         \<lparr>name = Str (str ''ISS''), norad = Num (Fin 25544), lat = Num (Fin 10),
          lon = Num (Fin 20), alt = Num (Fin (1101 / 2)), timestamp = 1000\<rparr>)],
      connected = False, connectionStatus = Str (str ''Disconnected - reconnecting...''),
      messageCount = 1, lastMessageTime = Some 1000,
      ws = Some 0, reconnectTimeout = Some 1, isMounted = True,
      sockets = [CLOSED],
      timers = [\<lparr>handle = 1, delay = 3000, callback = ReconnectAfterClose\<rparr>],
      nextTimer = 2, allocated = 1,
      console = [ConnectedToFeed, DisconnectedFromFeed],
      updater_console = [ReceivedMessage 1]\<rparr>"
  by (simp add: lost_connection_def mount_True_eq handler_eval example_defs altitude_eval)

lemma lost_connection_reachable: "reachable lost_connection"
  unfolding lost_connection_def
  by (rule reachable_run [OF reachable.start])
    (simp add: mount_True_eq handler_eval example_defs altitude_eval)

lemma retry_fails_state:
  "run retry_fails (mount True) =
     \<lparr>satellites = [], connected = False,
      connectionStatus = Str (str ''Disconnected - reconnecting...''),
      messageCount = 0, lastMessageTime = None,
      ws = Some 1, reconnectTimeout = Some 1, isMounted = True,
      sockets = [CLOSED, CLOSED], timers = [], nextTimer = 2, allocated = 0,
      console = [WebSocketError, DisconnectedFromFeed, AttemptingToReconnect,
                 WebSocketError, DisconnectedFromFeed],
      updater_console = []\<rparr>"
  by (simp add: retry_fails_def mount_True_eq onerror_def onclose_def console_log_def
      setTimeout_def clearTimeout_def connect_def Let_def)

lemma retry_fails_feasible: "feasible retry_fails (mount True)"
  by (simp add: retry_fails_def mount_True_eq onerror_def onclose_def console_log_def
      setTimeout_def clearTimeout_def connect_def Let_def)

lemma unknown_is_NaN: "parseFloat (js_trim (js_replace (str ''km'') [] (str ''unknown''))) = NaN"
  by (simp add: altitude_eval)

section \<open>The claims of the specification\<close>

text \<open>
  C1. For every sequence of valid position messages received for one NORAD id by a
  mounted component, the store afterwards holds exactly one record under that id, and
  it is the record of the specification for the last message: its name, norad, lat and
  lon, its altitude normalized (a number as it is, a text with its unit suffix and the
  surrounding white space stripped and then parsed), and the time of that update. In
  every reachable state no two records of the store have the same key. Two position
  messages with the same norad, received with an empty store, leave a store of size 1
  that holds the second.
\<close>

theorem store_keeps_last_position:
  "(isMounted s \<and> distinct (map fst (satellites s)) \<and>
      (\<forall>e \<in> set es. position_event n e) \<and> position_event n (Message k ev) \<and>
      parsed ev = Some d
    \<longrightarrow> filter (\<lambda>e. fst e = KPrim (Num n)) (satellites (run (es @ [Message k ev]) s))
          = [(KPrim (Num n), normalized d (date2 ev))])
   \<and> (reachable s' \<longrightarrow> distinct (map fst (satellites s')))
   \<and> (isMounted s0 \<and> satellites s0 = [] \<and>
      position_event n' (Message k1 ev1) \<and> position_event n' (Message k2 ev2) \<and>
      parsed ev2 = Some d2
    \<longrightarrow> satellites (run [Message k1 ev1, Message k2 ev2] s0)
          = [(KPrim (Num n'), normalized d2 (date2 ev2))])"
proof (intro conjI impI)
  assume h: "isMounted s \<and> distinct (map fst (satellites s)) \<and>
      (\<forall>e \<in> set es. position_event n e) \<and> position_event n (Message k ev) \<and>
      parsed ev = Some d"
  let ?s1 = "run es s"
  from h run_position_events [of es n s]
  have m: "isMounted ?s1" and dk: "distinct (map fst (satellites ?s1))" by simp_all
  from h have v: "valid_position d" and "get_prop (str ''norad'') d = Num n"
    by (auto simp: position_event_def)
  with m h have "satellites (onmessage ev ?s1) =
      map_set (KPrim (Num n)) (satelliteData d (date2 ev)) (satellites ?s1)"
    by (simp add: onmessage_position)
  also from v have "satelliteData d (date2 ev) = normalized d (date2 ev)"
    by (rule valid_position_normalized)
  finally show "filter (\<lambda>e. fst e = KPrim (Num n)) (satellites (run (es @ [Message k ev]) s))
          = [(KPrim (Num n), normalized d (date2 ev))]"
    using dk by (simp add: run_append filter_map_set)
next
  assume "reachable s'"
  then show "distinct (map fst (satellites s'))" by (rule distinct_keys_reachable)
next
  assume h: "isMounted s0 \<and> satellites s0 = [] \<and>
      position_event n' (Message k1 ev1) \<and> position_event n' (Message k2 ev2) \<and>
      parsed ev2 = Some d2"
  from h obtain d1 where s1: "satellites (onmessage ev1 s0) =
        map_set (KPrim (Num n')) (satelliteData d1 (date2 ev1)) (satellites s0)"
      and m1: "isMounted (onmessage ev1 s0)"
    by (auto simp: position_event_def onmessage_position split: option.splits)
  from h have v: "valid_position d2" and "get_prop (str ''norad'') d2 = Num n'"
    by (auto simp: position_event_def)
  with m1 h have "satellites (onmessage ev2 (onmessage ev1 s0)) =
      map_set (KPrim (Num n')) (satelliteData d2 (date2 ev2)) (satellites (onmessage ev1 s0))"
    by (simp add: onmessage_position)
  also from v have "satelliteData d2 (date2 ev2) = normalized d2 (date2 ev2)"
    by (rule valid_position_normalized)
  finally show "satellites (run [Message k1 ev1, Message k2 ev2] s0)
          = [(KPrim (Num n'), normalized d2 (date2 ev2))]"
    using s1 h by simp
qed

text \<open>
  The theorem at the three ISS messages, received by a connected client: the last has
  the altitude text \<^verbatim>\<open> 400 km \<close>, and the record stored has the altitude 400; of the
  numeric message followed by the text \<^verbatim>\<open>550.5km\<close>, the record stored has 550.5.
\<close>

theorem store_keeps_last_position_witness:
  "isMounted connected_client \<and> distinct (map fst (satellites connected_client))
   \<and> position_event (Fin 25544) (Message 0 iss_first)
   \<and> position_event (Fin 25544) (Message 0 iss_second)
   \<and> position_event (Fin 25544) (Message 0 iss_third)
   \<and> reachable (mount True)
   \<and> filter (\<lambda>e. fst e = KPrim (Num (Fin 25544)))
        (satellites (run ([Message 0 iss_first, Message 0 iss_second] @ [Message 0 iss_third])
                       connected_client))
      = [(KPrim (Num (Fin 25544)),
          \<lparr>name = Str (str ''ISS''), norad = Num (Fin 25544), lat = Num (Fin 12),
           lon = Num (Fin 20), alt = Num (Fin 400), timestamp = 2501\<rparr>)]
   \<and> distinct (map fst (satellites (mount True)))
   \<and> satellites (run [Message 0 iss_second, Message 0 iss_first] connected_client)
      = [(KPrim (Num (Fin 25544)),
          \<lparr>name = Str (str ''ISS''), norad = Num (Fin 25544), lat = Num (Fin 10),
           lon = Num (Fin 20), alt = Num (Fin (1101 / 2)), timestamp = 1000\<rparr>)]"
proof -
  have m: "isMounted connected_client" and e: "satellites connected_client = []"
    by (simp_all add: connected_client_eq)
  have p1: "position_event (Fin 25544) (Message 0 iss_first)"
    and p2: "position_event (Fin 25544) (Message 0 iss_second)"
    and p3: "position_event (Fin 25544) (Message 0 iss_third)"
    by (simp_all add: position_event_def valid_position_def is_num_def is_str_def example_defs
        unit_text_def float_char_def is_digit_def is_ws_def str_def)
  have d1: "parsed iss_first = Some (position_json ''ISS'' 25544 10 20 (Str (str ''550.5km'')))"
    and d1': "date2 iss_first = 1000"
    by (simp_all add: iss_first_def)
  have d3: "parsed iss_third = Some (position_json ''ISS'' 25544 12 20 (Str (str '' 400 km '')))"
    and d3': "date2 iss_third = 2501"
    by (simp_all add: iss_third_def)
  have n1: "normalized (position_json ''ISS'' 25544 10 20 (Str (str ''550.5km''))) 1000
      = \<lparr>name = Str (str ''ISS''), norad = Num (Fin 25544), lat = Num (Fin 10),
           lon = Num (Fin 20), alt = Num (Fin (1101 / 2)), timestamp = 1000\<rparr>"
    and n3: "normalized (position_json ''ISS'' 25544 12 20 (Str (str '' 400 km ''))) 2501
      = \<lparr>name = Str (str ''ISS''), norad = Num (Fin 25544), lat = Num (Fin 12),
           lon = Num (Fin 20), alt = Num (Fin 400), timestamp = 2501\<rparr>"
    by (simp_all add: normalized_def position_json_def altitude_eval)
  have r: "reachable (mount True)" by (rule reachable.start)
  note t = store_keeps_last_position
    [where s = connected_client and es = "[Message 0 iss_first, Message 0 iss_second]"
       and n = "Fin 25544" and k = 0 and ev = iss_third
       and d = "position_json ''ISS'' 25544 12 20 (Str (str '' 400 km ''))"
       and s' = "mount True" and ?s0.0 = connected_client and n' = "Fin 25544"
       and ?k1.0 = 0 and ?ev1.0 = iss_second and ?k2.0 = 0 and ?ev2.0 = iss_first
       and ?d2.0 = "position_json ''ISS'' 25544 10 20 (Str (str ''550.5km''))"]
  from t m e p1 p2 p3 d1 d1' d3 d3' n1 n3 r show ?thesis by simp
qed

text \<open>
  C2. The specification has the reconnection loop run for as long as the component is
  mounted. The code stops after one failed retry: the timeout callback leaves its handle
  in \<open>reconnectTimeout\<close>, only \<open>onopen\<close> resets it, so the close of a socket that
  never opened finds the handle set and schedules nothing. After the events of
  \<open>retry_fails\<close> (the first socket fails, the timeout expires, the second socket fails
  before it opens) the component is mounted and marked disconnected, every socket is
  closed, no timeout is pending, and the only event that can still occur is the
  unmounting.
\<close>

theorem reconnect_stops_after_failed_retry:
  "feasible retry_fails (mount True)
   \<and> isMounted (run retry_fails (mount True))
   \<and> \<not> connected (run retry_fails (mount True))
   \<and> sockets (run retry_fails (mount True)) = [CLOSED, CLOSED]
   \<and> timers (run retry_fails (mount True)) = []
   \<and> {e. enabled (run retry_fails (mount True)) e} = {Unmount}"
proof -
  have "{e. enabled (run retry_fails (mount True)) e} = {Unmount}"
    by (rule only_unmount_enabled) (simp_all add: retry_fails_state)
  then show ?thesis by (simp add: retry_fails_feasible) (simp add: retry_fails_state)
qed

text \<open>
  C3. The specification has an error event of a mounted component mark the connection
  disconnected, show a status text and lead to a reconnect attempt after the fixed
  delay, which the close event that follows the error schedules. The code does the
  first two and misses the third when the error is that of a retry: after the first
  socket has failed and the timeout has constructed the second, the error of the second
  socket marks the client disconnected with the text \<^verbatim>\<open>Connection error - retrying...\<close>,
  and the close that follows finds the old handle in \<open>reconnectTimeout\<close> and schedules
  nothing. No timeout is pending before the error, after it, or after the close.
\<close>

theorem error_of_retry_is_never_retried:
  "feasible [Error 0, Close 0, Timeout 1 True] (mount True)
   \<and> isMounted (run [Error 0, Close 0, Timeout 1 True] (mount True))
   \<and> timers (run [Error 0, Close 0, Timeout 1 True] (mount True)) = []
   \<and> enabled (run [Error 0, Close 0, Timeout 1 True] (mount True)) (Error 1)
   \<and> \<not> connected (run [Error 0, Close 0, Timeout 1 True, Error 1] (mount True))
   \<and> connectionStatus (run [Error 0, Close 0, Timeout 1 True, Error 1] (mount True))
       = Str (str ''Connection error - retrying...'')
   \<and> timers (run [Error 0, Close 0, Timeout 1 True, Error 1] (mount True)) = []
   \<and> enabled (run [Error 0, Close 0, Timeout 1 True, Error 1] (mount True)) (Close 1)
   \<and> isMounted (run [Error 0, Close 0, Timeout 1 True, Error 1, Close 1] (mount True))
   \<and> timers (run [Error 0, Close 0, Timeout 1 True, Error 1, Close 1] (mount True)) = []"
  by (simp add: mount_True_eq onerror_def onclose_def console_log_def setTimeout_def
      clearTimeout_def connect_def Let_def)

text \<open>
  C4, as the specification states it, fails at a message that has the field \<^verbatim>\<open>norad\<close>
  and the field \<^verbatim>\<open>type\<close> with value \<^verbatim>\<open>connection\<close>: no record is stored, and the status
  text becomes the message's \<^verbatim>\<open>message\<close> field.
\<close>

theorem connection_test_comes_first_counterexample:
  "isMounted connected_client
   \<and> parsed tagged_position = Some (Obj [(str ''type'', Str (str ''connection'')),
                          (str ''message'', Str (str ''hi'')),
                          (str ''norad'', Num (Fin 25544))])
   \<and> isSatellitePosition (Obj [(str ''type'', Str (str ''connection'')),
                          (str ''message'', Str (str ''hi'')),
                          (str ''norad'', Num (Fin 25544))]) = Inr True
   \<and> satellites (deliver (Message 0 tagged_position) connected_client) = []
   \<and> connectionStatus (deliver (Message 0 tagged_position) connected_client) = Str (str ''hi'')"
  by (simp add: connected_client_eq handler_eval example_defs) (simp add: str_def)

text \<open>
  C4, amended. The kind of a decoded message is determined by its shape, and the
  connection test comes first: an object whose \<^verbatim>\<open>type\<close> is \<^verbatim>\<open>connection\<close> is handled as a
  status update (the status text becomes its \<^verbatim>\<open>message\<close> field and the store is
  unchanged), whether or not it has a field \<^verbatim>\<open>norad\<close>; any other object that has the
  field \<^verbatim>\<open>norad\<close> is handled as a position update (its record is written to the store
  under the key of its norad, the status text unchanged); an array, or an object with
  neither, is logged by the handler as an unknown format and dropped; a decoded number,
  text, boolean or null makes the test throw, and the handler logs the error and the
  text received and drops the message.
\<close>

theorem message_kind_by_shape:
  "(isMounted s \<and> parsed ev = Some (Obj kvs)
      \<and> map_of kvs (str ''type'') = Some (Str (str ''connection''))
    \<longrightarrow> connectionStatus (deliver (Message k ev) s) = get_prop (str ''message'') (Obj kvs)
        \<and> satellites (deliver (Message k ev) s) = satellites s)
   \<and> (isMounted s \<and> parsed ev = Some (Obj kvs)
      \<and> map_of kvs (str ''type'') \<noteq> Some (Str (str ''connection''))
      \<and> map_of kvs (str ''norad'') = Some v
    \<longrightarrow> satellites (deliver (Message k ev) s)
          = map_set (mapkey_of (Suc (allocated s)) v) (satelliteData (Obj kvs) (date2 ev))
              (satellites s)
        \<and> connectionStatus (deliver (Message k ev) s) = connectionStatus s)
   \<and> (isMounted s \<and> parsed ev = Some d
      \<and> ((\<exists>xs. d = Arr xs) \<or>
          (d = Obj kvs \<and> map_of kvs (str ''type'') \<noteq> Some (Str (str ''connection''))
             \<and> map_of kvs (str ''norad'') = None))
    \<longrightarrow> satellites (deliver (Message k ev) s) = satellites s
        \<and> connectionStatus (deliver (Message k ev) s) = connectionStatus s
        \<and> console (deliver (Message k ev) s) = console s @ [UnknownMessageFormat d])
   \<and> (isMounted s \<and> parsed ev = Some d
      \<and> (d = Null \<or> d = Bool b \<or> d = Num x \<or> d = Str t)
    \<longrightarrow> satellites (deliver (Message k ev) s) = satellites s
        \<and> connectionStatus (deliver (Message k ev) s) = connectionStatus s
        \<and> console (deliver (Message k ev) s)
            = console s @ [ErrorParsingMessage TypeError, RawMessageWas (data ev)])"
proof (intro conjI impI)
  assume h: "isMounted s \<and> parsed ev = Some (Obj kvs)
      \<and> map_of kvs (str ''type'') = Some (Str (str ''connection''))"
  then show "connectionStatus (deliver (Message k ev) s) = get_prop (str ''message'') (Obj kvs)"
    and "satellites (deliver (Message k ev) s) = satellites s"
    by (simp_all add: onmessage_def Let_def classify_connection console_log_def)
next
  assume h: "isMounted s \<and> parsed ev = Some (Obj kvs)
      \<and> map_of kvs (str ''type'') \<noteq> Some (Str (str ''connection''))
      \<and> map_of kvs (str ''norad'') = Some v"
  then have c: "classify ev (Obj kvs) s' =
     Inr (s'\<lparr>satellites := map_set (mapkey_of (allocated s') v)
                             (satelliteData (Obj kvs) (date2 ev)) (satellites s')\<rparr>)" for s'
    by (simp add: classify_position)
  from h show "satellites (deliver (Message k ev) s)
          = map_set (mapkey_of (Suc (allocated s)) v) (satelliteData (Obj kvs) (date2 ev))
              (satellites s)"
    and "connectionStatus (deliver (Message k ev) s) = connectionStatus s"
    by (simp_all add: onmessage_def Let_def c)
next
  assume h: "isMounted s \<and> parsed ev = Some d
      \<and> ((\<exists>xs. d = Arr xs) \<or>
          (d = Obj kvs \<and> map_of kvs (str ''type'') \<noteq> Some (Str (str ''connection''))
             \<and> map_of kvs (str ''norad'') = None))"
  then have c: "classify ev d s' = Inr (console_log (UnknownMessageFormat d) s')" for s'
    by (auto simp: classify_array classify_unknown_object)
  from h show "satellites (deliver (Message k ev) s) = satellites s"
    and "connectionStatus (deliver (Message k ev) s) = connectionStatus s"
    and "console (deliver (Message k ev) s) = console s @ [UnknownMessageFormat d]"
    by (simp_all add: onmessage_def Let_def c console_log_def)
next
  assume h: "isMounted s \<and> parsed ev = Some d
      \<and> (d = Null \<or> d = Bool b \<or> d = Num x \<or> d = Str t)"
  then have c: "classify ev d s' = Inl TypeError" for s'
    using classify_primitive [of d b x t ev s'] by simp
  from h show "satellites (deliver (Message k ev) s) = satellites s"
    and "connectionStatus (deliver (Message k ev) s) = connectionStatus s"
    and "console (deliver (Message k ev) s)
            = console s @ [ErrorParsingMessage TypeError, RawMessageWas (data ev)]"
    by (simp_all add: onmessage_def Let_def c)
qed

text \<open>
  The theorem at a message of each kind, received by a connected client: the tagged
  position, the second ISS message, the array \<^verbatim>\<open>[1]\<close> and the number 7.
\<close>

theorem message_kind_by_shape_witness:
  "isMounted connected_client
   \<and> connectionStatus (deliver (Message 0 tagged_position) connected_client) = Str (str ''hi'')
   \<and> satellites (deliver (Message 0 tagged_position) connected_client) = []
   \<and> satellites (deliver (Message 0 iss_second) connected_client)
       = [(KPrim (Num (Fin 25544)),
           \<lparr>name = Str (str ''ISS''), norad = Num (Fin 25544), lat = Num (Fin 11),
            lon = Num (Fin 20), alt = Num (Fin 420), timestamp = 2001\<rparr>)]
   \<and> console (deliver (Message 0 \<lparr>data = str ''[1]'', parsed = Some (Arr [Num (Fin 1)]),
                                   date1 = 1, date2 = 1\<rparr>) connected_client)
       = [ConnectedToFeed, UnknownMessageFormat (Arr [Num (Fin 1)])]
   \<and> console (deliver (Message 0 \<lparr>data = str ''7'', parsed = Some (Num (Fin 7)),
                                   date1 = 1, date2 = 1\<rparr>) connected_client)
       = [ConnectedToFeed, ErrorParsingMessage TypeError, RawMessageWas (str ''7'')]"
proof -
  have m: "isMounted connected_client" and e: "satellites connected_client = []"
    and a: "allocated connected_client = 0"
    by (simp_all add: connected_client_eq)
  have c: "console connected_client = [ConnectedToFeed]"
    by (simp add: connected_client_eq)
  let ?tagged = "[(str ''type'', Str (str ''connection'')), (str ''message'', Str (str ''hi'')),
                  (str ''norad'', Num (Fin 25544))]"
  let ?iss = "[(str ''name'', Str (str ''ISS'')), (str ''norad'', Num (Fin 25544)),
          (str ''lat'', Num (Fin 11)), (str ''lon'', Num (Fin 20)), (str ''alt'', Num (Fin 420))]"
  have p1: "parsed tagged_position = Some (Obj ?tagged)"
    and t1: "map_of ?tagged (str ''type'') = Some (Str (str ''connection''))"
    and g1: "get_prop (str ''message'') (Obj ?tagged) = Str (str ''hi'')"
    by (simp_all add: tagged_position_def) (simp add: str_def)
  have p2: "parsed iss_second = Some (Obj ?iss)" and d2: "date2 iss_second = 2001"
    and t2: "map_of ?iss (str ''type'') \<noteq> Some (Str (str ''connection''))"
    and n2: "map_of ?iss (str ''norad'') = Some (Num (Fin 25544))"
    and j2: "satelliteData (Obj ?iss) 2001
        = \<lparr>name = Str (str ''ISS''), norad = Num (Fin 25544), lat = Num (Fin 11),
            lon = Num (Fin 20), alt = Num (Fin 420), timestamp = 2001\<rparr>"
    by (simp_all add: iss_second_def position_json_def satelliteData_def altValue_def)
      (simp_all add: str_def)
  from message_kind_by_shape
    [where s = connected_client and ev = tagged_position and kvs = ?tagged and k = 0
       and d = Null and b = True and x = NaN and t = "[]" and v = Null]
    m p1 t1 g1
  have r1: "connectionStatus (deliver (Message 0 tagged_position) connected_client) = Str (str ''hi'')"
    "satellites (deliver (Message 0 tagged_position) connected_client) = satellites connected_client"
    by simp_all
  from message_kind_by_shape
    [where s = connected_client and ev = iss_second and kvs = ?iss and k = 0
       and d = Null and b = True and x = NaN and t = "[]" and v = "Num (Fin 25544)"]
    m p2 t2 n2 d2 a e j2
  have r2: "satellites (deliver (Message 0 iss_second) connected_client)
       = [(KPrim (Num (Fin 25544)),
           \<lparr>name = Str (str ''ISS''), norad = Num (Fin 25544), lat = Num (Fin 11),
            lon = Num (Fin 20), alt = Num (Fin 420), timestamp = 2001\<rparr>)]"
    by simp
  from message_kind_by_shape
    [where s = connected_client
       and ev = "\<lparr>data = str ''[1]'', parsed = Some (Arr [Num (Fin 1)]), date1 = 1, date2 = 1\<rparr>"
       and kvs = "[]" and k = 0
       and d = "Arr [Num (Fin 1)]" and b = True and x = NaN and t = "[]" and v = Null]
    m c
  have r3: "console (deliver (Message 0 \<lparr>data = str ''[1]'', parsed = Some (Arr [Num (Fin 1)]),
                                   date1 = 1, date2 = 1\<rparr>) connected_client)
       = [ConnectedToFeed, UnknownMessageFormat (Arr [Num (Fin 1)])]"
    by simp
  from message_kind_by_shape
    [where s = connected_client
       and ev = "\<lparr>data = str ''7'', parsed = Some (Num (Fin 7)), date1 = 1, date2 = 1\<rparr>"
       and kvs = "[]" and k = 0
       and d = "Num (Fin 7)" and b = True and x = "Fin 7" and t = "[]" and v = Null]
    m c
  have r4: "console (deliver (Message 0 \<lparr>data = str ''7'', parsed = Some (Num (Fin 7)),
                                   date1 = 1, date2 = 1\<rparr>) connected_client)
       = [ConnectedToFeed, ErrorParsingMessage TypeError, RawMessageWas (str ''7'')]"
    by simp
  from m e r1 r2 r3 r4 show ?thesis by simp
qed

text \<open>
  C5, as the specification states it, fails at the altitude text \<^verbatim>\<open>1km2\<close>: the text has
  no unit suffix, so stripping the suffix and the white space leaves it whole and the
  parse gives 1, while the handler removes the \<^verbatim>\<open>km\<close> in the middle and parses \<^verbatim>\<open>12\<close>.
\<close>

theorem altitude_first_km_counterexample:
  "altValue (Str (str ''1km2'')) = Num (Fin 12) \<and> altitude_spec (Str (str ''1km2'')) = Num (Fin 1)"
  by (simp add: altitude_eval)

text \<open>
  C5, amended. A numeric altitude is used as it is. Of a textual altitude the first
  occurrence of \<^verbatim>\<open>km\<close> is removed, wherever it stands (nothing is removed when there is
  none), then the surrounding white space is trimmed and the rest is parsed with
  \<^verbatim>\<open>parseFloat\<close>. (In a text \<open>a @ km @ b\<close> the \<^verbatim>\<open>km\<close> after \<open>a\<close> is the first one
  when \<^verbatim>\<open>km\<close> does not occur in \<open>a\<close> followed by \<^verbatim>\<open>k\<close>.) When the first \<^verbatim>\<open>km\<close> of
  the text is a unit suffix that only white space follows, this is the altitude with its
  unit suffix and the surrounding white space stripped. The text \<^verbatim>\<open>550.5km\<close> gives
  550.5, the number 550.5 gives 550.5, and the text \<^verbatim>\<open> 400 km \<close> gives 400.
\<close>

theorem altitude_normalization:
  "altValue (Num x) = Num x
   \<and> (\<not> sublist (str ''km'') s \<longrightarrow> altValue (Str s) = Num (parseFloat (js_trim s)))
   \<and> (\<not> sublist (str ''km'') (a @ [0x6B]) \<longrightarrow>
        altValue (Str (a @ str ''km'' @ b)) = Num (parseFloat (js_trim (a @ b))))
   \<and> (\<not> sublist (str ''km'') (a' @ [0x6B]) \<and> (\<forall>c \<in> set w. is_ws c) \<longrightarrow>
        altValue (Str (a' @ str ''km'' @ w)) = altitude_spec (Str (a' @ str ''km'' @ w)))
   \<and> altValue (Str (str ''550.5km'')) = Num (Fin (1101 / 2))
   \<and> altValue (Num (Fin (1101 / 2))) = Num (Fin (1101 / 2))
   \<and> altValue (Str (str '' 400 km '')) = Num (Fin 400)"
proof (intro conjI impI)
  show "altValue (Num x) = Num x" by (simp add: altValue_def)
  show "altValue (Num (Fin (1101 / 2))) = Num (Fin (1101 / 2))" by (simp add: altValue_def)
  show "altValue (Str (str ''550.5km'')) = Num (Fin (1101 / 2))" by (simp add: altitude_eval)
  show "altValue (Str (str '' 400 km '')) = Num (Fin 400)" by (simp add: altitude_eval)
next
  assume "\<not> sublist (str ''km'') s"
  then show "altValue (Str s) = Num (parseFloat (js_trim s))"
    by (simp add: altValue_def js_replace_absent)
next
  assume "\<not> sublist (str ''km'') (a @ [0x6B])"
  then show "altValue (Str (a @ str ''km'' @ b)) = Num (parseFloat (js_trim (a @ b)))"
    by (simp add: altValue_def js_replace_km_first)
next
  assume h: "\<not> sublist (str ''km'') (a' @ [0x6B]) \<and> (\<forall>c \<in> set w. is_ws c)"
  then have "altValue (Str (a' @ str ''km'' @ w)) = Num (parseFloat (js_trim (a' @ w)))"
    by (simp add: altValue_def js_replace_km_first)
  also from h have "js_trim (a' @ w) = js_trim a'" by (simp add: js_trim_append_ws)
  also from h have "Num (parseFloat (js_trim a')) = altitude_spec (Str (a' @ str ''km'' @ w))"
    by (simp add: altitude_spec_km_suffix)
  finally show "altValue (Str (a' @ str ''km'' @ w)) = altitude_spec (Str (a' @ str ''km'' @ w))" .
qed

text \<open>
  The theorem at a text without unit, \<^verbatim>\<open>42\<close>, and at \<^verbatim>\<open> 400 km \<close>, split at its
  unit.
\<close>

theorem altitude_normalization_witness:
  "\<not> sublist (str ''km'') (str ''42'') \<and> altValue (Str (str ''42'')) = Num (Fin 42)
   \<and> \<not> sublist (str ''km'') (str '' 400 '' @ [0x6B])
   \<and> altValue (Str (str '' 400 '' @ str ''km'' @ str '' '')) = Num (Fin 400)
   \<and> altValue (Str (str '' 400 '' @ str ''km'' @ str '' ''))
       = altitude_spec (Str (str '' 400 '' @ str ''km'' @ str '' ''))"
proof -
  have h1: "\<not> sublist (str ''km'') (str ''42'')"
    by (simp add: str_def sublist_Cons_right)
  have h2: "\<not> sublist (str ''km'') (str '' 400 '' @ [0x6B])"
    by (simp add: str_def sublist_Cons_right)
  have h3: "\<forall>c \<in> set (str '' ''). is_ws c"
    by (simp add: str_def is_ws_def)
  have v: "parseFloat (js_trim (str ''42'')) = Fin 42"
     "parseFloat (js_trim (str '' 400 '' @ str '' '')) = Fin 400"
    by (simp_all add: altitude_eval)
  note t = altitude_normalization [of "Fin 0" "str ''42''" "str '' 400 ''" "str '' ''" "str '' 400 ''" "str '' ''"]
  from t h1 v have a: "altValue (Str (str ''42'')) = Num (Fin 42)" by simp
  from t h2 v have b: "altValue (Str (str '' 400 '' @ str ''km'' @ str '' '')) = Num (Fin 400)"
    by simp
  from t h2 h3 have c: "altValue (Str (str '' 400 '' @ str ''km'' @ str '' ''))
       = altitude_spec (Str (str '' 400 '' @ str ''km'' @ str '' ''))"
    by blast
  from h1 a h2 b c show ?thesis by blast
qed

text \<open>
  C6. A message whose payload fails to decode, received by a mounted component,
  increments the message count and leaves the store, the status text and the connected
  flag as they were. The handler returns: it logs the error and the text received, the
  component stays mounted, and neither the socket nor the timeouts are touched.
\<close>

theorem decode_failure_counts_and_drops:
  assumes "isMounted s" and "parsed ev = None"
  shows "messageCount (deliver (Message k ev) s) = messageCount s + 1
       \<and> satellites (deliver (Message k ev) s) = satellites s
       \<and> connectionStatus (deliver (Message k ev) s) = connectionStatus s
       \<and> connected (deliver (Message k ev) s) = connected s
       \<and> console (deliver (Message k ev) s) =
           console s @ [ErrorParsingMessage SyntaxError, RawMessageWas (data ev)]
       \<and> isMounted (deliver (Message k ev) s)
       \<and> ws (deliver (Message k ev) s) = ws s
       \<and> timers (deliver (Message k ev) s) = timers s"
  using assms by (simp add: onmessage_def Let_def)

text \<open>The theorem at a text that is not JSON, received by a connected client.\<close>

theorem decode_failure_counts_and_drops_witness:
  "isMounted connected_client \<and> parsed garbage = None
   \<and> messageCount (deliver (Message 0 garbage) connected_client) = 1
   \<and> satellites (deliver (Message 0 garbage) connected_client) = []
   \<and> connectionStatus (deliver (Message 0 garbage) connected_client) = Str (str ''Connected'')
   \<and> connected (deliver (Message 0 garbage) connected_client)
   \<and> console (deliver (Message 0 garbage) connected_client)
       = [ConnectedToFeed, ErrorParsingMessage SyntaxError, RawMessageWas (str ''{oops'')]"
proof -
  have m: "isMounted connected_client" by (simp add: connected_client_eq)
  have p: "parsed garbage = None" and d: "data garbage = str ''{oops''"
    by (simp_all add: garbage_def)
  from decode_failure_counts_and_drops [OF m p, of 0] m p d show ?thesis
    by (simp add: connected_client_eq)
qed

text \<open>
  C7. The specification has a close event of a mounted component schedule exactly one
  reconnect attempt. When the timeout of an earlier close has run and the socket it
  constructed closes without having opened, the close event finds the old handle in
  \<open>reconnectTimeout\<close> and schedules none: before the event no timeout is pending, and
  after it none is, though the status says that the client is reconnecting.
\<close>

theorem close_with_stale_handle_schedules_nothing:
  "feasible [Close 0, Timeout 1 True] (mount True)
   \<and> isMounted (run [Close 0, Timeout 1 True] (mount True))
   \<and> enabled (run [Close 0, Timeout 1 True] (mount True)) (Close 1)
   \<and> timers (run [Close 0, Timeout 1 True] (mount True)) = []
   \<and> reconnectTimeout (run [Close 0, Timeout 1 True] (mount True)) = Some 1
   \<and> timers (deliver (Close 1) (run [Close 0, Timeout 1 True] (mount True))) = []
   \<and> connectionStatus (deliver (Close 1) (run [Close 0, Timeout 1 True] (mount True)))
       = Str (str ''Disconnected - reconnecting...'')"
  by (simp add: mount_True_eq onclose_def console_log_def setTimeout_def
      clearTimeout_def connect_def Let_def)

text \<open>
  C8. Once the component is unmounted, no sequence of events changes the React state
  (the store, the connected flag, the status text, the counter and the time of the last
  message), and the component stays unmounted: each of the callbacks (open, message,
  error, close and the two timeout callbacks) returns the state it was given. The
  cleanup itself, run in a reachable state of a mounted component, leaves the React
  state as it is, leaves no timeout pending and leaves no socket connecting or open.
\<close>

theorem nothing_changes_after_teardown:
  "(\<not> isMounted s \<longrightarrow> react_state (run es s) = react_state s \<and> \<not> isMounted (run es s))
   \<and> (\<not> isMounted s1 \<longrightarrow>
        onopen s1 = s1 \<and> onmessage ev s1 = s1 \<and> onerror s1 = s1 \<and> onclose s1 = s1
        \<and> run_callback cb c s1 = s1)
   \<and> (reachable s2 \<and> isMounted s2 \<longrightarrow>
        \<not> isMounted (deliver Unmount s2)
        \<and> timers (deliver Unmount s2) = []
        \<and> list_all (\<lambda>r. \<not> live r) (sockets (deliver Unmount s2))
        \<and> react_state (deliver Unmount s2) = react_state s2)"
proof (intro conjI impI)
  assume "\<not> isMounted s"
  then show "react_state (run es s) = react_state s" and "\<not> isMounted (run es s)"
    by (simp_all add: run_unmounted)
next
  assume "\<not> isMounted s1"
  then show "onopen s1 = s1" and "onmessage ev s1 = s1" and "onerror s1 = s1"
    and "onclose s1 = s1" and "run_callback cb c s1 = s1"
    by (simp_all add: handlers_unmounted)
next
  assume "reachable s2 \<and> isMounted s2"
  then have i: "manager_inv s2" and m: "isMounted s2" by (simp_all add: manager_inv_reachable)
  from i show "timers (deliver Unmount s2) = []" by (simp add: cleanup_timers)
  from i m show "list_all (\<lambda>r. \<not> live r) (sockets (deliver Unmount s2))"
    by (simp add: cleanup_sockets)
  show "\<not> isMounted (deliver Unmount s2)" by (simp add: isMounted_cleanup)
  show "react_state (deliver Unmount s2) = react_state s2" by (simp add: react_state_cleanup)
qed

text \<open>
  The theorem at a client with a pending reconnect, which the cleanup cancels and which
  in-flight events do not change afterwards, and at a connected client, whose socket the
  cleanup closes.
\<close>

theorem nothing_changes_after_teardown_witness:
  "reachable lost_connection \<and> isMounted lost_connection
   \<and> timers lost_connection = [\<lparr>handle = 1, delay = 3000, callback = ReconnectAfterClose\<rparr>]
   \<and> \<not> isMounted (deliver Unmount lost_connection)
   \<and> timers (deliver Unmount lost_connection) = []
   \<and> react_state (deliver Unmount lost_connection) = react_state lost_connection
   \<and> react_state (run [Open 0, Message 0 iss_second, Error 0, Close 0, Timeout 1 True]
                    (deliver Unmount lost_connection)) = react_state lost_connection
   \<and> onmessage iss_second (deliver Unmount lost_connection) = deliver Unmount lost_connection
   \<and> run_callback ReconnectAfterClose True (deliver Unmount lost_connection)
       = deliver Unmount lost_connection
   \<and> reachable connected_client \<and> isMounted connected_client
   \<and> sockets connected_client = [OPEN]
   \<and> sockets (deliver Unmount connected_client) = [CLOSING]
   \<and> list_all (\<lambda>r. \<not> live r) (sockets (deliver Unmount connected_client))"
proof -
  have m: "isMounted lost_connection"
    and t: "timers lost_connection = [\<lparr>handle = 1, delay = 3000, callback = ReconnectAfterClose\<rparr>]"
    by (simp_all add: lost_connection_eq)
  have mc: "isMounted connected_client" and sc: "sockets connected_client = [OPEN]"
    and sc': "sockets (deliver Unmount connected_client) = [CLOSING]"
    by (simp_all add: connected_client_eq cleanup_def ws_close_def Let_def)
  note a = nothing_changes_after_teardown
    [where s = "deliver Unmount lost_connection"
       and es = "[Open 0, Message 0 iss_second, Error 0, Close 0, Timeout 1 True]"
       and ?s1.0 = "deliver Unmount lost_connection" and ev = iss_second
       and cb = ReconnectAfterClose and c = True and ?s2.0 = lost_connection]
  note b = nothing_changes_after_teardown
    [where s = "deliver Unmount connected_client" and es = "[]"
       and ?s1.0 = "deliver Unmount connected_client" and ev = iss_second
       and cb = ReconnectAfterClose and c = True and ?s2.0 = connected_client]
  from a lost_connection_reachable m have a':
    "\<not> isMounted (deliver Unmount lost_connection)"
    "timers (deliver Unmount lost_connection) = []"
    "react_state (deliver Unmount lost_connection) = react_state lost_connection"
    by simp_all
  from a a' have a'':
    "react_state (run [Open 0, Message 0 iss_second, Error 0, Close 0, Timeout 1 True]
                    (deliver Unmount lost_connection)) = react_state lost_connection"
    "onmessage iss_second (deliver Unmount lost_connection) = deliver Unmount lost_connection"
    "run_callback ReconnectAfterClose True (deliver Unmount lost_connection)
       = deliver Unmount lost_connection"
    by simp_all
  from b connected_client_reachable mc
  have b': "list_all (\<lambda>r. \<not> live r) (sockets (deliver Unmount connected_client))" by simp
  from lost_connection_reachable connected_client_reachable m t mc sc sc' a' a'' b'
  show ?thesis by simp
qed

text \<open>
  C9. A connection-status message (an object whose \<^verbatim>\<open>type\<close> is \<^verbatim>\<open>connection\<close>), received by
  a mounted component, sets the status text to the message's \<^verbatim>\<open>message\<close> field and
  leaves the store and the connected flag as they were; a client that is marked
  disconnected stays so, whatever the \<^verbatim>\<open>status\<close> field of the message says.
\<close>

theorem connection_message_sets_status_text_only:
  assumes "isMounted s" and "parsed ev = Some (Obj kvs)"
    and "map_of kvs (str ''type'') = Some (Str (str ''connection''))"
  shows "connectionStatus (deliver (Message k ev) s) = get_prop (str ''message'') (Obj kvs)
       \<and> satellites (deliver (Message k ev) s) = satellites s
       \<and> connected (deliver (Message k ev) s) = connected s"
  using assms by (simp add: onmessage_def Let_def classify_connection console_log_def)

text \<open>
  The theorem at the greeting of the server, whose \<^verbatim>\<open>status\<close> is \<^verbatim>\<open>connected\<close>, received
  before the socket has opened: the client is still marked disconnected afterwards.
\<close>

theorem connection_message_sets_status_text_only_witness:
  "isMounted (mount True) \<and> \<not> connected (mount True)
   \<and> get_prop (str ''status'') (connection_json ''Connected to satellite feed'')
       = Str (str ''connected'')
   \<and> connectionStatus (deliver (Message 0 greeting) (mount True))
       = Str (str ''Connected to satellite feed'')
   \<and> satellites (deliver (Message 0 greeting) (mount True)) = []
   \<and> \<not> connected (deliver (Message 0 greeting) (mount True))"
proof -
  have m: "isMounted (mount True)" by (simp add: mount_True_eq)
  have p: "parsed greeting = Some (Obj [(str ''type'', Str (str ''connection'')),
      (str ''message'', Str (str ''Connected to satellite feed'')),
      (str ''status'', Str (str ''connected''))])"
    by (simp add: greeting_def connection_json_def)
  have t: "map_of [(str ''type'', Str (str ''connection'')),
      (str ''message'', Str (str ''Connected to satellite feed'')),
      (str ''status'', Str (str ''connected''))] (str ''type'') = Some (Str (str ''connection''))"
    by simp
  have g: "get_prop (str ''message'') (Obj [(str ''type'', Str (str ''connection'')),
      (str ''message'', Str (str ''Connected to satellite feed'')),
      (str ''status'', Str (str ''connected''))]) = Str (str ''Connected to satellite feed'')"
    "get_prop (str ''status'') (connection_json ''Connected to satellite feed'')
       = Str (str ''connected'')"
    by (simp_all add: str_def connection_json_def)
  from connection_message_sets_status_text_only [OF m p t, of 0] m g show ?thesis
    by (simp add: mount_True_eq)
qed

text \<open>
  C10. A position message whose altitude is a text that does not parse to a number,
  such as \<^verbatim>\<open>unknown\<close>, is not dropped, and no default is put in its place: the store
  holds a record under the key of the message's norad, with the message's fields and the
  altitude NaN. The view renders a card for the record as for every other: its element is
  among those built for the store, \<^verbatim>\<open>toFixed(2)\<close> accepts its altitude, and in a state
  where the records of the store have the types of their interface and React accepts the
  status text, the render succeeds and the list shown has a card of that norad whose
  altitude is what \<^verbatim>\<open>toFixed(2)\<close> makes of NaN.
\<close>

theorem unparsable_altitude_is_stored:
  "(isMounted s \<and> parsed ev = Some (Obj kvs)
      \<and> map_of kvs (str ''type'') \<noteq> Some (Str (str ''connection''))
      \<and> map_of kvs (str ''norad'') = Some v
      \<and> map_of kvs (str ''alt'') = Some (Str a)
      \<and> parseFloat (js_trim (js_replace (str ''km'') [] a)) = NaN
    \<longrightarrow> map_of (satellites (deliver (Message k ev) s)) (mapkey_of (Suc (allocated s)) v)
          = Some (satelliteData (Obj kvs) (date2 ev))
        \<and> norad (satelliteData (Obj kvs) (date2 ev)) = v
        \<and> alt (satelliteData (Obj kvs) (date2 ev)) = Num NaN
        \<and> card_element fmt time (satelliteData (Obj kvs) (date2 ev))
            \<in> set (cards fmt time (deliver (Message k ev) s))
        \<and> toFixed fmt 2 (alt (satelliteData (Obj kvs) (date2 ev))) = Inr (fmt 2 NaN)
        \<and> (list_all (\<lambda>e. well_typed (snd e)) (satellites (deliver (Message k ev) s))
             \<and> react_child (connectionStatus (deliver (Message k ev) s))
           \<longrightarrow> (\<exists>vw cs c. render fmt time (deliver (Message k ev) s) = Inr vw
                  \<and> view_list vw = Cards cs
                  \<and> c \<in> set cs \<and> card_norad c = v \<and> card_alt c = fmt 2 NaN)))
   \<and> parseFloat (js_trim (js_replace (str ''km'') [] (str ''unknown''))) = NaN"
proof (intro conjI impI)
  show "parseFloat (js_trim (js_replace (str ''km'') [] (str ''unknown''))) = NaN"
    by (rule unknown_is_NaN)
next
  assume h: "isMounted s \<and> parsed ev = Some (Obj kvs)
      \<and> map_of kvs (str ''type'') \<noteq> Some (Str (str ''connection''))
      \<and> map_of kvs (str ''norad'') = Some v
      \<and> map_of kvs (str ''alt'') = Some (Str a)
      \<and> parseFloat (js_trim (js_replace (str ''km'') [] a)) = NaN"
  let ?r = "satelliteData (Obj kvs) (date2 ev)"
  let ?key = "mapkey_of (Suc (allocated s)) v"
  let ?s' = "deliver (Message k ev) s"
  from h have c: "classify ev (Obj kvs) s' =
     Inr (s'\<lparr>satellites := map_set (mapkey_of (allocated s') v) ?r (satellites s')\<rparr>)" for s'
    by (simp add: classify_position)
  from h have st: "satellites (onmessage ev s) = map_set ?key ?r (satellites s)"
    by (simp add: onmessage_def Let_def c)
  show "map_of (satellites ?s') ?key = Some ?r"
    by (simp add: st map_of_map_set)
  from h show nr: "norad ?r = v" by (simp add: satelliteData_def)
  from h show al: "alt ?r = Num NaN" by (simp add: satelliteData_def altValue_def)
  have mem: "(?key, ?r) \<in> set (satellites ?s')"
    by (simp add: st map_set_mem)
  then show in_cards: "card_element fmt time ?r \<in> set (cards fmt time ?s')"
    by (force simp: cards_def)
  show "toFixed fmt 2 (alt ?r) = Inr (fmt 2 NaN)" by (simp add: al toFixed_def)
  assume g: "list_all (\<lambda>e. well_typed (snd e)) (satellites ?s')
             \<and> react_child (connectionStatus ?s')"
  then have all: "\<forall>e \<in> set (satellites ?s'). well_typed (snd e)"
    by (simp add: list_all_iff)
  have "\<exists>c. r = Inr c" if "r \<in> set (cards fmt time ?s')" for r
  proof -
    from that obtain e where "e \<in> set (satellites ?s')" and r: "r = card_element fmt time (snd e)"
      by (auto simp: cards_def)
    with all have "well_typed (snd e)" by simp
    from card_element_well_typed [OF this, of fmt time] r show ?thesis by auto
  qed
  then have "collect (cards fmt time ?s') = Inr (map projr (cards fmt time ?s'))"
    by (rule collect_all_Inr)
  moreover from mem have "satellites ?s' \<noteq> []" by auto
  ultimately have l: "listing fmt time ?s' = Inr (Cards (map projr (cards fmt time ?s')))"
    by (simp add: listing_def)
  from all have "list_all (\<lambda>e. react_child (name (snd e)) \<and> react_child (norad (snd e)))
      (satellites ?s')"
    by (auto simp: list_all_iff dest: well_typed_children)
  with g l obtain vw where vw: "render fmt time ?s' = Inr vw"
    "view_list vw = Cards (map projr (cards fmt time ?s'))"
    by (simp add: render_def)
  from all mem have "well_typed ?r" by auto
  from card_element_well_typed [OF this, of fmt time] al nr
  obtain c where c: "card_element fmt time ?r = Inr c" "card_norad c = v" "card_alt c = fmt 2 NaN"
    by auto
  from in_cards c(1) have "c \<in> set (map projr (cards fmt time ?s'))" by force
  with vw c show "\<exists>vw cs c. render fmt time ?s' = Inr vw \<and> view_list vw = Cards cs
                  \<and> c \<in> set cs \<and> card_norad c = v \<and> card_alt c = fmt 2 NaN"
    by blast
qed

text \<open>
  The theorem at the ISS message with the altitude \<^verbatim>\<open>unknown\<close>, received by a connected
  client; a formatted number is shown as the pair of the digits and the number.
\<close>

theorem unparsable_altitude_is_stored_witness:
  "isMounted connected_client
   \<and> satellites (deliver (Message 0 iss_unknown) connected_client)
       = [(KPrim (Num (Fin 25544)),
           \<lparr>name = Str (str ''ISS''), norad = Num (Fin 25544), lat = Num (Fin 10),
            lon = Num (Fin 20), alt = Num NaN, timestamp = 3000\<rparr>)]
   \<and> list_all (\<lambda>e. well_typed (snd e))
        (satellites (deliver (Message 0 iss_unknown) connected_client))
   \<and> react_child (connectionStatus (deliver (Message 0 iss_unknown) connected_client))
   \<and> card_element Pair (\<lambda>t. (t, NaN))
        (satelliteData (position_json ''ISS'' 25544 10 20 (Str (str ''unknown''))) 3000)
       \<in> set (cards Pair (\<lambda>t. (t, NaN)) (deliver (Message 0 iss_unknown) connected_client))
   \<and> (\<exists>vw cs c. render Pair (\<lambda>t. (t, NaN)) (deliver (Message 0 iss_unknown) connected_client)
                   = Inr vw
          \<and> view_list vw = Cards cs \<and> c \<in> set cs \<and> card_norad c = Num (Fin 25544)
          \<and> card_alt c = (2, NaN))
   \<and> render Pair (\<lambda>t. (t, NaN)) (deliver (Message 0 iss_unknown) connected_client)
       = Inr \<lparr>view_status = Str (str ''Connected''),
              view_counters = Some (1, Some (3000, NaN)),
              view_list = Cards [\<lparr>card_name = Str (str ''ISS''), card_norad = Num (Fin 25544),
                card_lat = (6, Fin 10), card_lon = (6, Fin 20), card_alt = (2, NaN),
                card_time = (3000, NaN)\<rparr>]\<rparr>"
proof -
  let ?kvs = "[(str ''name'', Str (str ''ISS'')), (str ''norad'', Num (Fin 25544)),
          (str ''lat'', Num (Fin 10)), (str ''lon'', Num (Fin 20)),
          (str ''alt'', Str (str ''unknown''))]"
  let ?s' = "deliver (Message 0 iss_unknown) connected_client"
  have m: "isMounted connected_client" by (simp add: connected_client_eq)
  have p: "parsed iss_unknown = Some (Obj ?kvs)" and d: "date2 iss_unknown = 3000"
    and j: "position_json ''ISS'' 25544 10 20 (Str (str ''unknown'')) = Obj ?kvs"
    by (simp_all add: iss_unknown_def position_json_def)
  have f: "map_of ?kvs (str ''type'') \<noteq> Some (Str (str ''connection''))"
    "map_of ?kvs (str ''norad'') = Some (Num (Fin 25544))"
    "map_of ?kvs (str ''alt'') = Some (Str (str ''unknown''))"
    by (simp_all add: str_def)
  have s: "satellites ?s'
       = [(KPrim (Num (Fin 25544)),
           \<lparr>name = Str (str ''ISS''), norad = Num (Fin 25544), lat = Num (Fin 10),
            lon = Num (Fin 20), alt = Num NaN, timestamp = 3000\<rparr>)]"
    and cs: "connectionStatus ?s' = Str (str ''Connected'')"
    and cn: "connected ?s'" and mc: "messageCount ?s' = 1"
    and lt: "lastMessageTime ?s' = Some 3000"
    by (simp_all add: connected_client_eq handler_eval example_defs altitude_eval)
  from s have w: "list_all (\<lambda>e. well_typed (snd e)) (satellites ?s')"
    by (simp add: well_typed_def is_num_def is_str_def)
  from cs have rc: "react_child (connectionStatus ?s')" by simp
  from s cs cn mc lt
  have r: "render Pair (\<lambda>t. (t, NaN)) ?s'
       = Inr \<lparr>view_status = Str (str ''Connected''),
              view_counters = Some (1, Some (3000, NaN)),
              view_list = Cards [\<lparr>card_name = Str (str ''ISS''), card_norad = Num (Fin 25544),
                card_lat = (6, Fin 10), card_lon = (6, Fin 20), card_alt = (2, NaN),
                card_time = (3000, NaN)\<rparr>]\<rparr>"
    by (simp add: render_def listing_def cards_def card_element_def toFixed_def)
  note t = unparsable_altitude_is_stored
    [where s = connected_client and ev = iss_unknown and kvs = ?kvs and k = 0
       and v = "Num (Fin 25544)" and a = "str ''unknown''" and fmt = Pair
       and time = "\<lambda>t. (t, NaN)"]
  from t m p d j f unknown_is_NaN
  have c: "card_element Pair (\<lambda>t. (t, NaN))
        (satelliteData (position_json ''ISS'' 25544 10 20 (Str (str ''unknown''))) 3000)
       \<in> set (cards Pair (\<lambda>t. (t, NaN)) ?s')"
    by simp
  from t m p f unknown_is_NaN w rc
  have e: "\<exists>vw cs c. render Pair (\<lambda>t. (t, NaN)) ?s' = Inr vw
          \<and> view_list vw = Cards cs \<and> c \<in> set cs \<and> card_norad c = Num (Fin 25544)
          \<and> card_alt c = (2, NaN)"
    by simp
  from m s w rc c e r show ?thesis by simp
qed

end
